theory Spec2Isabelle
  imports Main
begin

section \<open>Strings and numbers of the host language\<close>

text \<open>
  The dashboard script \<^verbatim>\<open>scripts.js\<close> works on JavaScript strings. A string is modelled
  as a \<^typ>\<open>string\<close>, a list of code units in the range 0..255; code units above
  \<^verbatim>\<open>U+00FF\<close> lie outside the model. Integers that the script holds in number variables
  (list indices, the displayed year and month) are modelled as \<^typ>\<open>int\<close>; they stay far
  below 2^53 in every run, so no rounding takes place.
\<close>

definition code :: "char \<Rightarrow> nat" where
  "code c = of_char c"

definition is_digit :: "char \<Rightarrow> bool" where
  "is_digit c = (48 \<le> code c \<and> code c \<le> 57)"

definition digit_char :: "nat \<Rightarrow> char" where
  "digit_char d = char_of (48 + d)"

text \<open>Number-to-string conversion of a non-negative integer: its decimal digits.\<close>

function show_nat :: "nat \<Rightarrow> string" where
  "show_nat n = (if n < 10 then [digit_char n] else show_nat (n div 10) @ [digit_char (n mod 10)])"
  by pat_completeness auto
termination
  by (relation "measure (\<lambda>n. n)") auto

declare show_nat.simps [simp del]

text \<open>Number-to-string conversion of an integer, as a template literal or a property
  access performs it: a minus sign for negative values, then the digits.\<close>

definition show_int :: "int \<Rightarrow> string" where
  "show_int i = (if i < 0 then CHR ''-'' # show_nat (nat (- i)) else show_nat (nat i))"

section \<open>JSON values, \<^verbatim>\<open>JSON.stringify\<close> and \<^verbatim>\<open>JSON.parse\<close>\<close>

text \<open>
  The exceptions a run of the script can raise. \<open>Unrepresentable\<close> is not a JavaScript
  exception: it marks a stored text whose parse would produce a code unit above
  \<^verbatim>\<open>U+00FF\<close>, about which the model says nothing.
\<close>

datatype error = SyntaxError | TypeError | Unrepresentable

text \<open>
  The values \<^verbatim>\<open>JSON.parse\<close> produces. A number keeps its lexeme: rounding to a double is
  not modelled, and no property below depends on a number. An object keeps its
  properties in enumeration order.
\<close>

datatype json =
    JNull
  | JBool bool
  | JNumber string
  | JString string
  | JArray "json list"
  | JObject "(string \<times> json) list"

subsection \<open>Property order of objects\<close>

text \<open>A property key is an array index when it is the decimal form of an integer
  below 2^32 - 1; such keys are enumerated first, in ascending order.\<close>

definition read_nat :: "string \<Rightarrow> int" where
  "read_nat s = foldl (\<lambda>a c. 10 * a + (int (code c) - 48)) 0 s"

definition index_of_key :: "string \<Rightarrow> int option" where
  "index_of_key k =
     (if k \<noteq> [] \<and> list_all is_digit k \<and> (hd k \<noteq> CHR ''0'' \<or> length k = 1)
         \<and> read_nat k < 4294967295
      then Some (read_nat k) else None)"

text \<open>Insertion of a new index key \<open>n\<close> before the first key that is not a smaller index.\<close>

fun insert_index :: "int \<Rightarrow> string \<Rightarrow> json \<Rightarrow> (string \<times> json) list \<Rightarrow> (string \<times> json) list" where
  "insert_index n k v [] = [(k, v)]"
| "insert_index n k v ((k', v') # ps) =
     (case index_of_key k' of
        Some m \<Rightarrow> if m < n then (k', v') # insert_index n k v ps else (k, v) # (k', v') # ps
      | None \<Rightarrow> (k, v) # (k', v') # ps)"

fun replace_prop :: "string \<Rightarrow> json \<Rightarrow> (string \<times> json) list \<Rightarrow> (string \<times> json) list" where
  "replace_prop k v [] = []"
| "replace_prop k v ((k', v') # ps) =
     (if k' = k then (k, v) # ps else (k', v') # replace_prop k v ps)"

text \<open>Assignment \<^verbatim>\<open>obj[k] = v\<close> on a plain object: an existing property keeps its place,
  a new one is added in enumeration order.\<close>

definition obj_set :: "string \<Rightarrow> json \<Rightarrow> (string \<times> json) list \<Rightarrow> (string \<times> json) list" where
  "obj_set k v ps =
     (if k \<in> fst ` set ps then replace_prop k v ps
      else case index_of_key k of
             Some n \<Rightarrow> insert_index n k v ps
           | None \<Rightarrow> ps @ [(k, v)])"

subsection \<open>\<^verbatim>\<open>JSON.stringify\<close>\<close>

definition hex_char :: "nat \<Rightarrow> char" where
  "hex_char d = (if d < 10 then char_of (48 + d) else char_of (87 + d))"

text \<open>The escape of one code unit inside a quoted string.\<close>

definition escape_char :: "char \<Rightarrow> string" where
  "escape_char c =
     (if c = CHR 0x08 then [CHR 0x5C, CHR ''b'']
      else if c = CHR 0x09 then [CHR 0x5C, CHR ''t'']
      else if c = CHR 0x0A then [CHR 0x5C, CHR ''n'']
      else if c = CHR 0x0C then [CHR 0x5C, CHR ''f'']
      else if c = CHR 0x0D then [CHR 0x5C, CHR ''r'']
      else if c = CHR 0x22 then [CHR 0x5C, CHR 0x22]
      else if c = CHR 0x5C then [CHR 0x5C, CHR 0x5C]
      else if code c < 32 then
        [CHR 0x5C, CHR ''u'', CHR ''0'', CHR ''0'', hex_char (code c div 16), hex_char (code c mod 16)]
      else [c])"

definition quote :: "string \<Rightarrow> string" where
  "quote s = CHR 0x22 # concat (map escape_char s) @ [CHR 0x22]"

fun join :: "string \<Rightarrow> string list \<Rightarrow> string" where
  "join sep [] = []"
| "join sep [x] = x"
| "join sep (x # y # ys) = x @ sep @ join sep (y # ys)"

fun JSON_stringify :: "json \<Rightarrow> string" where
  "JSON_stringify JNull = ''null''"
| "JSON_stringify (JBool b) = (if b then ''true'' else ''false'')"
| "JSON_stringify (JNumber n) = n"
| "JSON_stringify (JString s) = quote s"
| "JSON_stringify (JArray xs) = ''['' @ join '','' (map JSON_stringify xs) @ '']''"
| "JSON_stringify (JObject ps) =
     ''{'' @ join '','' (map (\<lambda>(k, v). quote k @ '':'' @ JSON_stringify v) ps) @ ''}''"

subsection \<open>\<^verbatim>\<open>JSON.parse\<close>: the lexer\<close>

datatype token =
    TLBrace | TRBrace | TLBrack | TRBrack | TColon | TComma
  | TStr string | TNum string | TTrue | TFalse | TNull

definition hex_val :: "char \<Rightarrow> nat option" where
  "hex_val c =
     (if 48 \<le> code c \<and> code c \<le> 57 then Some (code c - 48)
      else if 97 \<le> code c \<and> code c \<le> 102 then Some (code c - 87)
      else if 65 \<le> code c \<and> code c \<le> 70 then Some (code c - 55)
      else None)"

definition hex4 :: "char \<Rightarrow> char \<Rightarrow> char \<Rightarrow> char \<Rightarrow> nat option" where
  "hex4 a b c d =
     (case (hex_val a, hex_val b, hex_val c, hex_val d) of
        (Some x, Some y, Some z, Some w) \<Rightarrow> Some (4096 * x + 256 * y + 16 * z + w)
      | _ \<Rightarrow> None)"

text \<open>The character a single-letter escape stands for.\<close>

definition unescape :: "char \<Rightarrow> char option" where
  "unescape e =
     (if e = CHR 0x22 then Some (CHR 0x22)
      else if e = CHR 0x5C then Some (CHR 0x5C)
      else if e = CHR ''/'' then Some (CHR ''/'')
      else if e = CHR ''b'' then Some (CHR 0x08)
      else if e = CHR ''f'' then Some (CHR 0x0C)
      else if e = CHR ''n'' then Some (CHR 0x0A)
      else if e = CHR ''r'' then Some (CHR 0x0D)
      else if e = CHR ''t'' then Some (CHR 0x09)
      else None)"

definition scons :: "char \<Rightarrow> error + string \<times> string \<Rightarrow> error + string \<times> string" where
  "scons c r = (case r of Inl e \<Rightarrow> Inl e | Inr (s, rest) \<Rightarrow> Inr (c # s, rest))"

text \<open>One escape sequence, after its backslash: the character it stands for and the
  input left.\<close>

definition lex_escape :: "string \<Rightarrow> error + char \<times> string" where
  "lex_escape cs =
     (case cs of
        [] \<Rightarrow> Inl SyntaxError
      | e # cs' \<Rightarrow>
          if e = CHR ''u'' then
            (case cs' of
               h1 # h2 # h3 # h4 # cs'' \<Rightarrow>
                 (case hex4 h1 h2 h3 h4 of
                    None \<Rightarrow> Inl SyntaxError
                  | Some n \<Rightarrow> if n < 256 then Inr (char_of n, cs'') else Inl Unrepresentable)
             | _ \<Rightarrow> Inl SyntaxError)
          else
            (case unescape e of
               None \<Rightarrow> Inl SyntaxError
             | Some ch \<Rightarrow> Inr (ch, cs')))"

lemma lex_escape_rest: "lex_escape cs = Inr (ch, rest) \<Longrightarrow> length rest < length cs"
  by (auto simp: lex_escape_def split: list.splits if_splits option.splits)

text \<open>The body of a string literal, after its opening quote: the decoded string and
  the input left after the closing quote.\<close>

function lex_string :: "string \<Rightarrow> error + string \<times> string" where
  "lex_string [] = Inl SyntaxError"
| "lex_string (c # cs) =
     (if c = CHR 0x22 then Inr ([], cs)
      else if c = CHR 0x5C then
        (case lex_escape cs of
           Inl e \<Rightarrow> Inl e
         | Inr (ch, rest) \<Rightarrow> scons ch (lex_string rest))
      else if code c < 32 then Inl SyntaxError
      else scons c (lex_string cs))"
  by pat_completeness auto
termination
  by (relation "measure length") (auto dest: lex_escape_rest)

text \<open>A number lexeme at the head of the input:
  \<^verbatim>\<open>-? (0 | [1-9][0-9]*) (. [0-9]+)? ([eE] [+-]? [0-9]+)?\<close>.\<close>

definition lex_int_part :: "string \<Rightarrow> (string \<times> string) option" where
  "lex_int_part cs =
     (case cs of
        [] \<Rightarrow> None
      | c # cs' \<Rightarrow>
          if c = CHR ''0'' then Some ([c], cs')
          else if is_digit c then Some (takeWhile is_digit cs, dropWhile is_digit cs)
          else None)"

definition lex_frac_part :: "string \<Rightarrow> (string \<times> string) option" where
  "lex_frac_part cs =
     (case cs of
        [] \<Rightarrow> Some ([], cs)
      | c # cs' \<Rightarrow>
          if c = CHR ''.'' then
            (if takeWhile is_digit cs' = [] then None
             else Some (c # takeWhile is_digit cs', dropWhile is_digit cs'))
          else Some ([], cs))"

definition lex_exp_digits :: "string \<Rightarrow> string \<Rightarrow> (string \<times> string) option" where
  "lex_exp_digits pre cs =
     (if takeWhile is_digit cs = [] then None
      else Some (pre @ takeWhile is_digit cs, dropWhile is_digit cs))"

definition lex_exp_part :: "string \<Rightarrow> (string \<times> string) option" where
  "lex_exp_part cs =
     (case cs of
        [] \<Rightarrow> Some ([], cs)
      | c # cs' \<Rightarrow>
          if c = CHR ''e'' \<or> c = CHR ''E'' then
            (case cs' of
               [] \<Rightarrow> None
             | s # cs'' \<Rightarrow>
                 if s = CHR ''+'' \<or> s = CHR ''-'' then lex_exp_digits [c, s] cs''
                 else lex_exp_digits [c] cs')
          else Some ([], cs))"

definition lex_number :: "string \<Rightarrow> (string \<times> string) option" where
  "lex_number cs =
     (let (sign, r0) = (case cs of c # cs' \<Rightarrow> if c = CHR ''-'' then ([c], cs') else ([], cs)
                                  | [] \<Rightarrow> ([], cs))
      in case lex_int_part r0 of
           None \<Rightarrow> None
         | Some (ip, r1) \<Rightarrow>
             (case lex_frac_part r1 of
                None \<Rightarrow> None
              | Some (fp, r2) \<Rightarrow>
                  (case lex_exp_part r2 of
                     None \<Rightarrow> None
                   | Some (ep, r3) \<Rightarrow> Some (sign @ ip @ fp @ ep, r3))))"

definition is_ws :: "char \<Rightarrow> bool" where
  "is_ws c = (c = CHR 0x09 \<or> c = CHR 0x0A \<or> c = CHR 0x0D \<or> c = CHR 0x20)"

definition tcons :: "token \<Rightarrow> error + token list \<Rightarrow> error + token list" where
  "tcons t r = (case r of Inl e \<Rightarrow> Inl e | Inr ts \<Rightarrow> Inr (t # ts))"

lemma lex_string_rest: "lex_string cs = Inr (s, rest) \<Longrightarrow> length rest \<le> length cs"
proof (induction cs arbitrary: s rule: lex_string.induct)
  case 1
  then show ?case by simp
next
  case (2 c cs)
  show ?case
  proof (cases "c = CHR 0x22")
    case True
    with "2.prems" show ?thesis by simp
  next
    case nq: False
    show ?thesis
    proof (cases "c = CHR 0x5C")
      case True
      with nq "2.prems" obtain ch r s' where e: "lex_escape cs = Inr (ch, r)"
        and s': "lex_string r = Inr (s', rest)"
        by (auto simp: scons_def split: sum.splits prod.splits)
      from "2.IH"(1) [OF nq True e refl s'] lex_escape_rest [OF e]
      show ?thesis by simp
    next
      case False
      with nq "2.prems" obtain s' where s': "lex_string cs = Inr (s', rest)" and "\<not> code c < 32"
        by (auto simp: scons_def split: sum.splits prod.splits if_splits)
      from "2.IH"(2) [OF nq False this(2) s'] show ?thesis by simp
    qed
  qed
qed

lemma dropWhile_rest: "length (dropWhile P xs) \<le> length xs"
  by (induction xs) auto

lemma lex_exp_digits_rest: "lex_exp_digits pre cs = Some (l, rest) \<Longrightarrow> length rest \<le> length cs"
  by (auto simp: lex_exp_digits_def dropWhile_rest split: if_splits)

lemma lex_int_part_rest: "lex_int_part xs = Some (a, r) \<Longrightarrow> length r < length xs"
  by (auto simp: lex_int_part_def split: list.splits if_splits
           intro: le_imp_less_Suc dropWhile_rest)

lemma lex_frac_part_rest: "lex_frac_part xs = Some (a, r) \<Longrightarrow> length r \<le> length xs"
  by (auto simp: lex_frac_part_def split: list.splits if_splits
           intro: le_SucI dropWhile_rest)

lemma lex_exp_part_rest: "lex_exp_part xs = Some (a, r) \<Longrightarrow> length r \<le> length xs"
  by (auto simp: lex_exp_part_def split: list.splits if_splits
           dest!: lex_exp_digits_rest)

lemma lex_number_rest: "lex_number cs = Some (l, rest) \<Longrightarrow> length rest < length cs"
  by (auto simp: lex_number_def split: list.splits if_splits option.splits prod.splits
           dest!: lex_int_part_rest lex_frac_part_rest lex_exp_part_rest)

text \<open>The token sequence of a text. White space separates tokens; a character that
  starts no token is a syntax error.\<close>

function lex :: "string \<Rightarrow> error + token list" where
  "lex [] = Inr []"
| "lex (c # cs) =
     (if is_ws c then lex cs
      else if c = CHR ''{'' then tcons TLBrace (lex cs)
      else if c = CHR ''}'' then tcons TRBrace (lex cs)
      else if c = CHR ''['' then tcons TLBrack (lex cs)
      else if c = CHR '']'' then tcons TRBrack (lex cs)
      else if c = CHR '':'' then tcons TColon (lex cs)
      else if c = CHR '','' then tcons TComma (lex cs)
      else if c = CHR 0x22 then
        (case lex_string cs of
           Inl e \<Rightarrow> Inl e
         | Inr (s, rest) \<Rightarrow> tcons (TStr s) (lex rest))
      else if c = CHR ''-'' \<or> is_digit c then
        (case lex_number (c # cs) of
           None \<Rightarrow> Inl SyntaxError
         | Some (l, rest) \<Rightarrow> tcons (TNum l) (lex rest))
      else if take 4 (c # cs) = ''true'' then tcons TTrue (lex (drop 3 cs))
      else if take 5 (c # cs) = ''false'' then tcons TFalse (lex (drop 4 cs))
      else if take 4 (c # cs) = ''null'' then tcons TNull (lex (drop 3 cs))
      else Inl SyntaxError)"
  by pat_completeness auto
termination
proof (relation "measure length", goal_cases)
  case 1
  show ?case by simp
next
  case (9 c cs x s rest)
  then show ?case using lex_string_rest [of cs s rest] by simp
next
  case (10 c cs x l rest)
  then show ?case using lex_number_rest [of "c # cs" l rest] by simp
qed simp_all

subsection \<open>\<^verbatim>\<open>JSON.parse\<close>: the parser\<close>

text \<open>
  The parser runs over the tokens with a stack of the containers that are still open:
  an array with the elements read so far, or an object with the properties read so far
  and the key whose value is being read. \<open>parse_value\<close> expects a value,
  \<open>parse_after\<close> has just completed one. A repeated key overwrites the earlier
  property, as \<open>obj_set\<close> does.
\<close>

datatype frame = FArray "json list" | FObject "(string \<times> json) list" string

fun parse_value :: "frame list \<Rightarrow> token list \<Rightarrow> error + json"
  and parse_after :: "json \<Rightarrow> frame list \<Rightarrow> token list \<Rightarrow> error + json" where
  "parse_value st ts =
     (case ts of
        [] \<Rightarrow> Inl SyntaxError
      | t # ts' \<Rightarrow>
          (case t of
             TNull \<Rightarrow> parse_after JNull st ts'
           | TTrue \<Rightarrow> parse_after (JBool True) st ts'
           | TFalse \<Rightarrow> parse_after (JBool False) st ts'
           | TNum l \<Rightarrow> parse_after (JNumber l) st ts'
           | TStr s \<Rightarrow> parse_after (JString s) st ts'
           | TLBrack \<Rightarrow>
               (case ts' of
                  TRBrack # ts'' \<Rightarrow> parse_after (JArray []) st ts''
                | _ \<Rightarrow> parse_value (FArray [] # st) ts')
           | TLBrace \<Rightarrow>
               (case ts' of
                  TRBrace # ts'' \<Rightarrow> parse_after (JObject []) st ts''
                | TStr k # TColon # ts'' \<Rightarrow> parse_value (FObject [] k # st) ts''
                | _ \<Rightarrow> Inl SyntaxError)
           | _ \<Rightarrow> Inl SyntaxError))"
| "parse_after v st ts =
     (case st of
        [] \<Rightarrow> (case ts of [] \<Rightarrow> Inr v | _ \<Rightarrow> Inl SyntaxError)
      | FArray xs # st' \<Rightarrow>
          (case ts of
             TComma # ts' \<Rightarrow> parse_value (FArray (xs @ [v]) # st') ts'
           | TRBrack # ts' \<Rightarrow> parse_after (JArray (xs @ [v])) st' ts'
           | _ \<Rightarrow> Inl SyntaxError)
      | FObject ps k # st' \<Rightarrow>
          (case ts of
             TComma # TStr k' # TColon # ts' \<Rightarrow>
               parse_value (FObject (obj_set k v ps) k' # st') ts'
           | TRBrace # ts' \<Rightarrow> parse_after (JObject (obj_set k v ps)) st' ts'
           | _ \<Rightarrow> Inl SyntaxError))"

declare parse_value.simps [simp del] parse_after.simps [simp del]

definition JSON_parse :: "string \<Rightarrow> error + json" where
  "JSON_parse text = (case lex text of Inl e \<Rightarrow> Inl e | Inr ts \<Rightarrow> parse_value [] ts)"

section \<open>The page: document, storage and script state\<close>

text \<open>
  Everything a widget of \<^verbatim>\<open>scripts.js\<close> can read or change. The document is given by
  the ids of the elements it contains (and whether an element of class
  \<^verbatim>\<open>video-container\<close> exists); what the script assigns to an element is recorded per
  element and property. \<open>storage\<close> is \<^verbatim>\<open>localStorage\<close>; \<open>getItem\<close> of an absent key is
  \<open>None\<close>. The clock texts and today's date come from the environment.
\<close>

datatype outcome = Done | Threw error

datatype handler =
    SidebarClick | WallpaperClick | NotepadInput | KeyboardClick | ChecklistKeypress
  | PrevMonthClick | NextMonthClick | AccentInput | AccentChange

text \<open>A rendered checklist row: the index its two click handlers were created with, the
  value assigned to the text span, and whether the row carries class \<^verbatim>\<open>completed\<close>.\<close>

record row =
  row_index :: nat
  row_text :: "json option"
  row_completed :: bool

text \<open>A cell of the calendar grid: a leading blank, or a day with its number, the
  today mark and the value assigned to its text area.\<close>

datatype cell = EmptyDay | Day int bool json

record page =
  elements :: "string set"
  video_container :: bool
  storage :: "string \<rightharpoonup> string"
  root_style :: "string \<rightharpoonup> string"
  props :: "string \<times> string \<rightharpoonup> string"
  listeners :: "(string \<times> string \<times> handler) list"
  intervals :: "nat list"
  console :: "string list"
  video_plays :: nat
  location :: "string option"
  alerts :: "string list"
  rows :: "string \<Rightarrow> row list"
  currentMonth :: int
  currentYear :: int
  cal_key :: string
  cal_notes :: json
  cells :: "cell list"
  today_date :: int
  today_month :: int
  today_year :: int
  clock_time :: string
  clock_date :: string

definition set_prop :: "string \<Rightarrow> string \<Rightarrow> string \<Rightarrow> page \<Rightarrow> page" where
  "set_prop eid name v p = p\<lparr>props := (props p)((eid, name) \<mapsto> v)\<rparr>"

text \<open>The \<^verbatim>\<open>value\<close> of an input element: empty until something is assigned or typed.\<close>

definition elem_value :: "page \<Rightarrow> string \<Rightarrow> string" where
  "elem_value p eid = (case props p (eid, ''value'') of None \<Rightarrow> [] | Some v \<Rightarrow> v)"

definition add_listener :: "string \<Rightarrow> string \<Rightarrow> handler \<Rightarrow> page \<Rightarrow> page" where
  "add_listener eid ev h p = p\<lparr>listeners := listeners p @ [(eid, ev, h)]\<rparr>"

text \<open>\<^verbatim>\<open>getElement\<close>: whether the element exists; a missing required element is logged.\<close>

definition getElement :: "string \<Rightarrow> bool \<Rightarrow> page \<Rightarrow> bool \<times> page" where
  "getElement eid required p =
     (if eid \<notin> elements p \<and> required
      then (False, p\<lparr>console := console p @
              [''Required element with ID '' @ [CHR 0x22] @ eid @ [CHR 0x22] @ '' not found.'']\<rparr>)
      else (eid \<in> elements p, p))"

subsection \<open>Values of the host language\<close>

text \<open>
  A value read from a parsed JSON structure is a \<^typ>\<open>json\<close>, or \<open>None\<close> for
  \<^verbatim>\<open>undefined\<close>. Truthiness of a number looks at its digits only.
\<close>

definition number_is_zero :: "string \<Rightarrow> bool" where
  "number_is_zero l =
     list_all (\<lambda>c. c = CHR ''0'' \<or> c = CHR ''-'' \<or> c = CHR ''.'')
       (takeWhile (\<lambda>c. c \<noteq> CHR ''e'' \<and> c \<noteq> CHR ''E'') l)"

fun truthy :: "json option \<Rightarrow> bool" where
  "truthy None = False"
| "truthy (Some JNull) = False"
| "truthy (Some (JBool b)) = b"
| "truthy (Some (JNumber l)) = (\<not> number_is_zero l)"
| "truthy (Some (JString s)) = (s \<noteq> [])"
| "truthy (Some (JArray xs)) = True"
| "truthy (Some (JObject ps)) = True"

text \<open>\<^verbatim>\<open>v[i]\<close> for an integer \<open>i\<close>: reading from \<^verbatim>\<open>null\<close> throws, an array or a string is
  indexed, an object is looked up under the decimal form of \<open>i\<close>.\<close>

fun js_index :: "json \<Rightarrow> int \<Rightarrow> error + json option" where
  "js_index JNull i = Inl TypeError"
| "js_index (JArray xs) i =
     Inr (if 0 \<le> i \<and> i < int (length xs) then Some (xs ! nat i) else None)"
| "js_index (JObject ps) i = Inr (map_of ps (show_int i))"
| "js_index (JString s) i =
     Inr (if 0 \<le> i \<and> i < int (length s) then Some (JString [s ! nat i]) else None)"
| "js_index (JBool b) i = Inr None"
| "js_index (JNumber l) i = Inr None"

text \<open>\<^verbatim>\<open>v.name\<close> for a value that is neither \<^verbatim>\<open>null\<close> nor \<^verbatim>\<open>undefined\<close> and a name
  that no prototype defines (here \<^verbatim>\<open>text\<close> and \<^verbatim>\<open>checked\<close>).\<close>

fun get_prop :: "json \<Rightarrow> string \<Rightarrow> json option" where
  "get_prop (JObject ps) name = map_of ps name"
| "get_prop v name = None"

text \<open>\<^verbatim>\<open>v.name = x\<close> on such a value: an object gets or updates the property; on an
  array the new property is not part of its JSON form; on a primitive the assignment
  is dropped (the script does not run in strict mode).\<close>

fun assign_prop :: "json \<Rightarrow> string \<Rightarrow> json \<Rightarrow> json" where
  "assign_prop (JObject ps) name x = JObject (obj_set name x ps)"
| "assign_prop v name x = v"

text \<open>The container after the element read by \<open>js_index\<close> has been changed in place
  to \<open>e\<close>. A string yields a fresh one-character string, so it is not affected.\<close>

fun put_index :: "json \<Rightarrow> int \<Rightarrow> json \<Rightarrow> json" where
  "put_index (JArray xs) i e = JArray (xs[nat i := e])"
| "put_index (JObject ps) i e = JObject (replace_prop (show_int i) e ps)"
| "put_index v i e = v"

text \<open>\<^verbatim>\<open>v[i] = x\<close> for an integer \<open>i\<close>. An array grows when \<open>i\<close> is past its end; the
  holes in between are written as \<^verbatim>\<open>null\<close> by \<^verbatim>\<open>JSON.stringify\<close> and are modelled so.\<close>

fun js_assign_index :: "json \<Rightarrow> int \<Rightarrow> json \<Rightarrow> error + json" where
  "js_assign_index JNull i x = Inl TypeError"
| "js_assign_index (JObject ps) i x = Inr (JObject (obj_set (show_int i) x ps))"
| "js_assign_index (JArray xs) i x =
     Inr (if i < 0 then JArray xs
          else if i < int (length xs) then JArray (xs[nat i := x])
          else JArray (xs @ replicate (nat i - length xs) JNull @ [x]))"
| "js_assign_index v i x = Inr v"

text \<open>\<^verbatim>\<open>xs.splice(index, 1)\<close>: the array that is left. A negative start counts from the
  end and is clamped at 0; a start past the end is clamped to the length.\<close>

definition splice1 :: "int \<Rightarrow> 'a list \<Rightarrow> 'a list" where
  "splice1 index xs =
     (let len = int (length xs);
          start = (if index < 0 then max (len + index) 0 else min index len);
          deleteCount = min (max 1 0) (len - start)
      in take (nat start) xs @ drop (nat (start + deleteCount)) xs)"

text \<open>\<^verbatim>\<open>s.trim()\<close>: white space and line terminators removed at both ends (those among
  the code units of the model).\<close>

definition is_js_space :: "char \<Rightarrow> bool" where
  "is_js_space c = (c = CHR 0x09 \<or> c = CHR 0x0A \<or> c = CHR 0x0B \<or> c = CHR 0x0C \<or> c = CHR 0x0D
                    \<or> c = CHR 0x20 \<or> c = CHR 0xA0)"

definition trim :: "string \<Rightarrow> string" where
  "trim s = rev (dropWhile is_js_space (rev (dropWhile is_js_space s)))"

text \<open>\<^verbatim>\<open>s.toUpperCase()\<close> on the letters a to z; other code units are kept.\<close>

definition toUpperCase :: "string \<Rightarrow> string" where
  "toUpperCase s = map (\<lambda>c. if 97 \<le> code c \<and> code c \<le> 122 then char_of (code c - 32) else c) s"

text \<open>The text read from storage with a fallback: \<^verbatim>\<open>getItem(key) || fallback\<close>.\<close>

definition item_or :: "page \<Rightarrow> string \<Rightarrow> string \<Rightarrow> string" where
  "item_or p key fallback =
     (case storage p key of None \<Rightarrow> fallback | Some s \<Rightarrow> if s = [] then fallback else s)"

section \<open>The widgets\<close>

subsection \<open>Clock, sidebar, wallpaper, notepad\<close>

definition updateClock :: "page \<Rightarrow> page" where
  "updateClock p0 =
     (let (clockElement, p1) = getElement ''clock'' False p0;
          (dateElement, p2) = getElement ''date'' False p1;
          p3 = (if clockElement then set_prop ''clock'' ''textContent'' (clock_time p2) p2 else p2)
      in if dateElement then set_prop ''date'' ''textContent'' (clock_date p3) p3 else p3)"

definition initClock :: "page \<Rightarrow> page" where
  "initClock p0 = (let p1 = updateClock p0 in p1\<lparr>intervals := intervals p1 @ [1000]\<rparr>)"

definition initSidebarToggle :: "page \<Rightarrow> page" where
  "initSidebarToggle p0 =
     (let (hamburger, p1) = getElement ''hamburger-menu'' False p0;
          (sidebar, p2) = getElement ''sidebar'' False p1
      in if \<not> hamburger \<or> \<not> sidebar then p2
         else add_listener ''hamburger-menu'' ''click'' SidebarClick p2)"

definition WALLPAPER_STORAGE_KEY :: string where
  "WALLPAPER_STORAGE_KEY = ''wallpaperState''"

definition setWallpaperState :: "bool \<Rightarrow> string \<Rightarrow> page \<Rightarrow> page" where
  "setWallpaperState video state p0 =
     (let p1 =
        (if state = ''video'' \<and> video then
           (let q1 = set_prop ''.video-container'' ''style.backgroundImage'' ''none'' p0;
                q2 = set_prop ''video-background'' ''style.display'' ''block'' q1;
                q3 = q2\<lparr>video_plays := Suc (video_plays q2)\<rparr>
            in set_prop ''toggle-wallpaper-btn'' ''textContent'' ''Use Static Image'' q3)
         else
           (let q1 = set_prop ''.video-container'' ''style.backgroundImage''
                       ''url('images/stars21.png')'' p0;
                q2 = (if video then set_prop ''video-background'' ''style.display'' ''none'' q1
                      else q1)
            in set_prop ''toggle-wallpaper-btn'' ''textContent'' ''Use Video Background'' q2))
      in p1\<lparr>storage := (storage p1)(WALLPAPER_STORAGE_KEY \<mapsto> state)\<rparr>)"

definition initWallpaperToggle :: "page \<Rightarrow> page" where
  "initWallpaperToggle p0 =
     (let (toggleButton, p1) = getElement ''toggle-wallpaper-btn'' False p0;
          videoContainer = video_container p1;
          (video, p2) = getElement ''video-background'' False p1
      in if \<not> toggleButton \<or> \<not> videoContainer then p2
         else
           (let savedState = item_or p2 WALLPAPER_STORAGE_KEY ''video'';
                p3 = setWallpaperState video savedState p2
            in add_listener ''toggle-wallpaper-btn'' ''click'' WallpaperClick p3))"

definition TEXTAREA_STORAGE_KEY :: string where
  "TEXTAREA_STORAGE_KEY = ''notepadContent''"

definition initTextBoxStorage :: "page \<Rightarrow> page" where
  "initTextBoxStorage p0 =
     (let (textarea, p1) = getElement ''notepad'' False p0
      in if \<not> textarea then p1
         else
           (let p2 = (case storage p1 TEXTAREA_STORAGE_KEY of
                        None \<Rightarrow> p1
                      | Some savedContent \<Rightarrow>
                          if savedContent \<noteq> [] then set_prop ''notepad'' ''value'' savedContent p1
                          else p1)
            in add_listener ''notepad'' ''input'' NotepadInput p2))"

subsection \<open>Password gate\<close>

definition accepted_password :: string where
  "accepted_password = ''twentyone''"

definition failure_message :: string where
  "failure_message = ''Incorrect Passcode. Try '1234'.''"

definition checkPassword :: "page \<Rightarrow> page" where
  "checkPassword p0 =
     (let (passwordInput, p1) = getElement ''passwordInput'' False p0
      in if passwordInput \<and> elem_value p1 ''passwordInput'' = accepted_password
         then p1\<lparr>location := Some ''main.html''\<rparr>
         else p1\<lparr>alerts := alerts p1 @ [failure_message]\<rparr>)"

definition initPasswordProtection :: "page \<Rightarrow> page" where
  "initPasswordProtection p0 =
     (let (passwordInput, p1) = getElement ''passwordInput'' False p0
      in if \<not> passwordInput then p1 else p1)"

definition initKeyboardInput :: "page \<Rightarrow> page" where
  "initKeyboardInput p0 =
     (let (keyboard, p1) = getElement ''keyboard'' False p0;
          (passwordInput, p2) = getElement ''passwordInput'' False p1
      in if \<not> keyboard \<or> \<not> passwordInput then p2
         else add_listener ''keyboard'' ''click'' KeyboardClick p2)"

subsection \<open>Checklist\<close>

definition CHECKLIST_STORAGE_KEY :: string where
  "CHECKLIST_STORAGE_KEY = ''checklistItems''"

definition saveChecklist :: "json \<Rightarrow> page \<Rightarrow> page" where
  "saveChecklist items p = p\<lparr>storage := (storage p)(CHECKLIST_STORAGE_KEY \<mapsto> JSON_stringify items)\<rparr>"

definition loadChecklist :: "page \<Rightarrow> error + json" where
  "loadChecklist p =
     (case storage p CHECKLIST_STORAGE_KEY of
        None \<Rightarrow> Inr (JArray [])
      | Some saved \<Rightarrow> if saved \<noteq> [] then JSON_parse saved else Inr (JArray []))"

text \<open>The body of \<^verbatim>\<open>items.forEach\<close> in \<^verbatim>\<open>renderChecklist\<close>: one row per item, appended
  to the rows built so far. Reading \<^verbatim>\<open>item.checked\<close> of \<^verbatim>\<open>null\<close> throws before the row
  is attached.\<close>

fun render_rows :: "json list \<Rightarrow> nat \<Rightarrow> row list \<Rightarrow> outcome \<times> row list" where
  "render_rows [] index acc = (Done, acc)"
| "render_rows (item # items) index acc =
     (if item = JNull then (Threw TypeError, acc)
      else render_rows items (Suc index)
             (acc @ [\<lparr>row_index = index, row_text = get_prop item ''text'',
                      row_completed = truthy (get_prop item ''checked'')\<rparr>]))"

definition renderChecklist :: "string \<Rightarrow> page \<Rightarrow> outcome \<times> page" where
  "renderChecklist checklistElement p =
     (case loadChecklist p of
        Inl e \<Rightarrow> (Threw e, p)
      | Inr items \<Rightarrow>
          (let p1 = p\<lparr>rows := (rows p)(checklistElement := [])\<rparr>
           in case items of
                JArray xs \<Rightarrow>
                  (let (res, rs) = render_rows xs 0 []
                   in (res, p1\<lparr>rows := (rows p1)(checklistElement := rs)\<rparr>))
              | _ \<Rightarrow> (Threw TypeError, p1)))"

definition deleteItem :: "int \<Rightarrow> string \<Rightarrow> page \<Rightarrow> outcome \<times> page" where
  "deleteItem index checklistElement p =
     (case loadChecklist p of
        Inl e \<Rightarrow> (Threw e, p)
      | Inr items \<Rightarrow>
          (case items of
             JArray xs \<Rightarrow>
               renderChecklist checklistElement (saveChecklist (JArray (splice1 index xs)) p)
           | _ \<Rightarrow> (Threw TypeError, p)))"

definition toggleItem :: "int \<Rightarrow> string \<Rightarrow> page \<Rightarrow> outcome \<times> page" where
  "toggleItem index checklistElement p =
     (case loadChecklist p of
        Inl e \<Rightarrow> (Threw e, p)
      | Inr items \<Rightarrow>
          (case js_index items index of
             Inl e \<Rightarrow> (Threw e, p)
           | Inr None \<Rightarrow> (Threw TypeError, p)
           | Inr (Some item) \<Rightarrow>
               if item = JNull then (Threw TypeError, p)
               else
                 (let item' = assign_prop item ''checked''
                                (JBool (\<not> truthy (get_prop item ''checked'')));
                      items' = put_index items index item'
                  in renderChecklist checklistElement (saveChecklist items' p))))"

definition addItem :: "string \<Rightarrow> string \<Rightarrow> page \<Rightarrow> outcome \<times> page" where
  "addItem inputBox checklistElement p =
     (let text = trim (elem_value p inputBox)
      in if text = [] then (Done, p)
         else
           (case loadChecklist p of
              Inl e \<Rightarrow> (Threw e, p)
            | Inr items \<Rightarrow>
                (case items of
                   JArray xs \<Rightarrow>
                     (let items' = JArray (xs @ [JObject [(''text'', JString text),
                                                         (''checked'', JBool False)]]);
                          p1 = set_prop inputBox ''value'' [] p;
                          p2 = saveChecklist items' p1
                      in renderChecklist checklistElement p2)
                 | _ \<Rightarrow> (Threw TypeError, p))))"

definition initChecklist :: "page \<Rightarrow> outcome \<times> page" where
  "initChecklist p0 =
     (let (inputBox, p1) = getElement ''inputBox'' False p0;
          (checklist, p2) = getElement ''checklist'' False p1
      in if \<not> inputBox \<or> \<not> checklist then (Done, p2)
         else
           (case renderChecklist ''checklist'' p2 of
              (Done, p3) \<Rightarrow> (Done, add_listener ''inputBox'' ''keypress'' ChecklistKeypress p3)
            | (Threw e, p3) \<Rightarrow> (Threw e, p3)))"

subsection \<open>Calendar\<close>

definition monthNames :: "string list" where
  "monthNames = [''January'', ''February'', ''March'', ''April'', ''May'', ''June'', ''July'',
                 ''August'', ''September'', ''October'', ''November'', ''December'']"

text \<open>\<^verbatim>\<open>monthNames[m]\<close> inside a template literal; outside the table it reads
  \<^verbatim>\<open>undefined\<close>.\<close>

definition month_name :: "int \<Rightarrow> string" where
  "month_name m = (if 0 \<le> m \<and> m < 12 then monthNames ! nat m else ''undefined'')"

definition getCalendarStorageKey :: "int \<Rightarrow> int \<Rightarrow> string" where
  "getCalendarStorageKey year month = ''calendarNotes-'' @ show_int year @ ''-'' @ show_int month"

text \<open>
  The two dates the grid needs, \<^verbatim>\<open>new Date(y, m, 1).getDay()\<close> and
  \<^verbatim>\<open>new Date(y, m + 1, 0).getDate()\<close>, in the proleptic Gregorian calendar. The \<^verbatim>\<open>Date\<close>
  constructor reads a year from 0 to 99 as 1900 plus that year and carries a month
  outside 0..11 into the year. (Years beyond about 270000 on either side, for which
  \<^verbatim>\<open>Date\<close> has no value, are not treated apart.)
\<close>

definition date_year :: "int \<Rightarrow> int" where
  "date_year y = (if 0 \<le> y \<and> y \<le> 99 then 1900 + y else y)"

definition is_leap :: "int \<Rightarrow> bool" where
  "is_leap y = (y mod 4 = 0 \<and> (y mod 100 \<noteq> 0 \<or> y mod 400 = 0))"

definition daysInMonth :: "int \<Rightarrow> int \<Rightarrow> int" where
  "daysInMonth y m =
     (let yy = date_year y + m div 12; mm = m mod 12
      in if mm = 1 then (if is_leap yy then 29 else 28)
         else if mm = 3 \<or> mm = 5 \<or> mm = 8 \<or> mm = 10 then 30 else 31)"

text \<open>Days from 1 January 1970 to the given day of the given month (1..12).\<close>

definition days_from_civil :: "int \<Rightarrow> int \<Rightarrow> int \<Rightarrow> int" where
  "days_from_civil y m d =
     (let y' = (if m \<le> 2 then y - 1 else y);
          era = y' div 400;
          yoe = y' - era * 400;
          doy = (153 * (m + (if m > 2 then - 3 else 9)) + 2) div 5 + d - 1;
          doe = yoe * 365 + yoe div 4 - yoe div 100 + doy
      in era * 146097 + doe - 719468)"

definition firstDayOfMonth :: "int \<Rightarrow> int \<Rightarrow> int" where
  "firstDayOfMonth y m =
     (days_from_civil (date_year y + m div 12) (m mod 12 + 1) 1 + 4) mod 7"

text \<open>The second loop of \<^verbatim>\<open>generateCalendar\<close>: one cell per day. The text area shows
  \<^verbatim>\<open>savedNotes[i] || ''\<close>; reading from \<^verbatim>\<open>null\<close> throws before the cell is attached.\<close>

fun fill_days :: "json \<Rightarrow> (int \<Rightarrow> bool) \<Rightarrow> int list \<Rightarrow> cell list \<Rightarrow> outcome \<times> cell list" where
  "fill_days savedNotes is_today [] acc = (Done, acc)"
| "fill_days savedNotes is_today (i # days) acc =
     (case js_index savedNotes i of
        Inl e \<Rightarrow> (Threw e, acc)
      | Inr v \<Rightarrow>
          fill_days savedNotes is_today days
            (acc @ [Day i (is_today i) (if truthy v then the v else JString [])]))"

definition generateCalendar :: "page \<Rightarrow> outcome \<times> page" where
  "generateCalendar p0 =
     (let (monthYearDisplay, p1) = getElement ''month-year'' False p0;
          (calendarBody, p2) = getElement ''calendar-body'' False p1
      in if \<not> monthYearDisplay \<or> \<not> calendarBody then (Done, p2)
         else
           (let p3 = p2\<lparr>cells := []\<rparr>;
                p4 = set_prop ''month-year'' ''textContent''
                       (month_name (currentMonth p3) @ '' '' @ show_int (currentYear p3)) p3;
                first = firstDayOfMonth (currentYear p4) (currentMonth p4);
                days = daysInMonth (currentYear p4) (currentMonth p4);
                localStorageKey = getCalendarStorageKey (currentYear p4) (currentMonth p4)
            in case JSON_parse (item_or p4 localStorageKey ''{}'') of
                 Inl e \<Rightarrow> (Threw e, p4)
               | Inr savedNotes \<Rightarrow>
                   (let blanks = replicate (nat first) EmptyDay;
                        is_today = (\<lambda>i. i = today_date p4 \<and> currentMonth p4 = today_month p4
                                          \<and> currentYear p4 = today_year p4);
                        (res, cs) = fill_days savedNotes is_today [1..days] blanks
                    in (res, p4\<lparr>cal_key := localStorageKey, cal_notes := savedNotes,
                                 cells := cs\<rparr>))))"

text \<open>
  The \<^verbatim>\<open>input\<close> listener of the text area of day \<open>i\<close> in the grid on display, run after
  the user has changed the text to \<open>v\<close>. It works on the note map and the storage key
  its grid was generated with (\<open>cal_notes\<close> and \<open>cal_key\<close>). A day that is not on
  display has no text area, hence no listener to run.
\<close>

fun set_day :: "int \<Rightarrow> json \<Rightarrow> cell list \<Rightarrow> cell list" where
  "set_day i v [] = []"
| "set_day i v (EmptyDay # cs) = EmptyDay # set_day i v cs"
| "set_day i v (Day j t x # cs) = (if j = i then Day j t v # cs else Day j t x # set_day i v cs)"

fun has_day :: "int \<Rightarrow> cell list \<Rightarrow> bool" where
  "has_day i [] = False"
| "has_day i (EmptyDay # cs) = has_day i cs"
| "has_day i (Day j t x # cs) = (j = i \<or> has_day i cs)"

definition dayInput :: "int \<Rightarrow> string \<Rightarrow> page \<Rightarrow> outcome \<times> page" where
  "dayInput i v p =
     (if \<not> has_day i (cells p) then (Done, p)
      else
        (let p1 = p\<lparr>cells := set_day i (JString v) (cells p)\<rparr>
         in case js_assign_index (cal_notes p1) i (JString v) of
              Inl e \<Rightarrow> (Threw e, p1)
            | Inr savedNotes \<Rightarrow>
                (Done, p1\<lparr>cal_notes := savedNotes,
                          storage := (storage p1)(cal_key p1 \<mapsto> JSON_stringify savedNotes)\<rparr>)))"

definition navigateMonth :: "int \<Rightarrow> page \<Rightarrow> outcome \<times> page" where
  "navigateMonth direction p0 =
     (let p1 = p0\<lparr>currentMonth := currentMonth p0 + direction\<rparr>;
          p2 = (if currentMonth p1 < 0
                then p1\<lparr>currentMonth := 11, currentYear := currentYear p1 - 1\<rparr>
                else if currentMonth p1 > 11
                then p1\<lparr>currentMonth := 0, currentYear := currentYear p1 + 1\<rparr>
                else p1)
      in generateCalendar p2)"

definition initCalendarNavigationListeners :: "page \<Rightarrow> page" where
  "initCalendarNavigationListeners p0 =
     (let (prevButton, p1) = getElement ''prev-month'' False p0;
          (nextButton, p2) = getElement ''next-month'' False p1;
          p3 = (if prevButton then add_listener ''prev-month'' ''click'' PrevMonthClick p2 else p2)
      in if nextButton then add_listener ''next-month'' ''click'' NextMonthClick p3 else p3)"

subsection \<open>Theme selector\<close>

definition DEFAULT_HEX :: string where
  "DEFAULT_HEX = ''#ffffff''"

definition COLOR_STORAGE_KEY :: string where
  "COLOR_STORAGE_KEY = ''accentColor''"

definition ROOT_COLOR_VAR :: string where
  "ROOT_COLOR_VAR = ''--accent-color''"

definition ROOT_RGB_COLOR_VAR :: string where
  "ROOT_RGB_COLOR_VAR = ''--accent-color-rgb''"

text \<open>The character class \<^verbatim>\<open>[a-f\d]\<close> under the flag \<^verbatim>\<open>i\<close>.\<close>

definition is_hex :: "char \<Rightarrow> bool" where
  "is_hex c = (hex_val c \<noteq> None)"

text \<open>The optional \<^verbatim>\<open>#\<close> at the start of both patterns. It is not a hexadecimal digit,
  so when it is there the pattern can only match by consuming it.\<close>

definition strip_hash :: "string \<Rightarrow> string" where
  "strip_hash s = (case s of [] \<Rightarrow> [] | c # cs \<Rightarrow> if c = CHR ''#'' then cs else s)"

text \<open>\<^verbatim>\<open>/^#?([a-f\d])([a-f\d])([a-f\d])$/i\<close>: the three groups of a match.\<close>

definition match_shorthand :: "string \<Rightarrow> (char \<times> char \<times> char) option" where
  "match_shorthand s =
     (case strip_hash s of
        [r, g, b] \<Rightarrow> if is_hex r \<and> is_hex g \<and> is_hex b then Some (r, g, b) else None
      | _ \<Rightarrow> None)"

text \<open>\<^verbatim>\<open>/^#?([a-f\d]{2})([a-f\d]{2})([a-f\d]{2})$/i\<close>: the three groups of a match.\<close>

definition match_full :: "string \<Rightarrow> (string \<times> string \<times> string) option" where
  "match_full s =
     (case strip_hash s of
        [r1, r2, g1, g2, b1, b2] \<Rightarrow>
          if is_hex r1 \<and> is_hex r2 \<and> is_hex g1 \<and> is_hex g2 \<and> is_hex b1 \<and> is_hex b2
          then Some ([r1, r2], [g1, g2], [b1, b2]) else None
      | _ \<Rightarrow> None)"

text \<open>\<^verbatim>\<open>parseInt(s, 16)\<close> on a string of hexadecimal digits.\<close>

definition parseInt16 :: "string \<Rightarrow> nat" where
  "parseInt16 s = foldl (\<lambda>a c. 16 * a + (case hex_val c of Some d \<Rightarrow> d | None \<Rightarrow> 0)) 0 s"

definition hexToRgb :: "string \<Rightarrow> string" where
  "hexToRgb hex0 =
     (let hex = (case match_shorthand hex0 of
                   Some (r, g, b) \<Rightarrow> [r, r, g, g, b, b]
                 | None \<Rightarrow> hex0)
      in case match_full hex of
           Some (r, g, b) \<Rightarrow>
             show_nat (parseInt16 r) @ '', '' @ show_nat (parseInt16 g) @ '', ''
               @ show_nat (parseInt16 b)
         | None \<Rightarrow> ''253, 224, 71'')"

definition applyColor :: "string \<Rightarrow> string option \<Rightarrow> page \<Rightarrow> page" where
  "applyColor hexColor inputElement p0 =
     (let p1 = p0\<lparr>root_style := (root_style p0)(ROOT_COLOR_VAR \<mapsto> hexColor)\<rparr>;
          p2 = p1\<lparr>root_style := (root_style p1)(ROOT_RGB_COLOR_VAR \<mapsto> hexToRgb hexColor)\<rparr>;
          p3 = p2\<lparr>storage := (storage p2)(COLOR_STORAGE_KEY \<mapsto> hexColor)\<rparr>;
          p4 = (case inputElement of
                  Some eid \<Rightarrow> set_prop eid ''value'' hexColor p3
                | None \<Rightarrow> p3);
          (hexDisplay, p5) = getElement ''hexDisplay'' False p4
      in if hexDisplay
         then set_prop ''hexDisplay'' ''textContent'' (''Current Hex: '' @ toUpperCase hexColor) p5
         else p5)"

definition initThemeSelector :: "page \<Rightarrow> page" where
  "initThemeSelector p0 =
     (let (colorInput, p1) = getElement ''accentColorPicker'' False p0;
          initialColor = item_or p1 COLOR_STORAGE_KEY DEFAULT_HEX;
          p2 = applyColor initialColor (if colorInput then Some ''accentColorPicker'' else None) p1
      in if colorInput
         then add_listener ''accentColorPicker'' ''change'' AccentChange
                (add_listener ''accentColorPicker'' ''input'' AccentInput p2)
         else p2)"

subsection \<open>Page load\<close>

text \<open>The \<^verbatim>\<open>DOMContentLoaded\<close> listener: the widgets are initialised in order; an
  exception ends the listener, so the widgets after it are not initialised.\<close>

definition onDOMContentLoaded :: "page \<Rightarrow> outcome \<times> page" where
  "onDOMContentLoaded p0 =
     (let p1 = p0\<lparr>console := console p0 @ [''DOM fully loaded and parsed'']\<rparr>;
          p2 = initClock p1;
          p3 = initSidebarToggle p2;
          p4 = initWallpaperToggle p3;
          p5 = initTextBoxStorage p4;
          p6 = initPasswordProtection p5;
          p7 = initKeyboardInput p6
      in case initChecklist p7 of
           (Threw e, p8) \<Rightarrow> (Threw e, p8)
         | (Done, p8) \<Rightarrow>
             (case generateCalendar p8 of
                (Threw e, p9) \<Rightarrow> (Threw e, p9)
              | (Done, p9) \<Rightarrow> (Done, initCalendarNavigationListeners (initThemeSelector p9))))"

text \<open>A document with no element at all, nothing stored and nothing run yet.\<close>

definition empty_page :: page where
  "empty_page =
     \<lparr>elements = {}, video_container = False, storage = Map.empty, root_style = Map.empty,
      props = Map.empty, listeners = [], intervals = [], console = [], video_plays = 0,
      location = None, alerts = [], rows = (\<lambda>e. []), currentMonth = 0, currentYear = 2024,
      cal_key = [], cal_notes = JNull, cells = [], today_date = 1, today_month = 0,
      today_year = 2024, clock_time = [], clock_date = []\<rparr>"

section \<open>Checklists in storage\<close>

text \<open>
  A checklist record as the specification describes it, its JSON form, and the JSON
  form of a sequence of records. A page holds a stored checklist \<open>items\<close> when loading
  yields exactly the JSON form of \<open>items\<close>.
\<close>

record ChecklistItem =
  item_text :: string
  item_checked :: bool

definition item_json :: "ChecklistItem \<Rightarrow> json" where
  "item_json it = JObject [(''text'', JString (item_text it)), (''checked'', JBool (item_checked it))]"

definition checklist_json :: "ChecklistItem list \<Rightarrow> json" where
  "checklist_json items = JArray (map item_json items)"

definition stored_checklist :: "page \<Rightarrow> ChecklistItem list \<Rightarrow> bool" where
  "stored_checklist p items = (loadChecklist p = Inr (checklist_json items))"

text \<open>The rows \<^verbatim>\<open>renderChecklist\<close> builds for a sequence of records.\<close>

definition item_row :: "nat \<Rightarrow> ChecklistItem \<Rightarrow> row" where
  "item_row i it =
     \<lparr>row_index = i, row_text = Some (JString (item_text it)), row_completed = item_checked it\<rparr>"

definition checklist_rows :: "ChecklistItem list \<Rightarrow> row list" where
  "checklist_rows items = map (\<lambda>(i, it). item_row i it) (enumerate 0 items)"

subsection \<open>Parsing what \<^verbatim>\<open>JSON.stringify\<close> wrote\<close>

definition tapp :: "token list \<Rightarrow> error + token list \<Rightarrow> error + token list" where
  "tapp ts r = (case r of Inl e \<Rightarrow> Inl e | Inr us \<Rightarrow> Inr (ts @ us))"

lemma tapp_Nil: "tapp [] r = r"
  by (simp add: tapp_def split: sum.splits)

lemma tcons_tapp: "tcons t (tapp ts r) = tapp (t # ts) r"
  by (simp add: tapp_def tcons_def split: sum.splits)

lemma tapp_tapp: "tapp ts (tapp us r) = tapp (ts @ us) r"
  by (simp add: tapp_def split: sum.splits)

lemma hex_val_hex_char: "d < 16 \<Longrightarrow> hex_val (hex_char d) = Some d"
  by (simp add: hex_val_def hex_char_def code_def)

lemma lex_escape_u00:
  assumes "code c < 32"
  shows "lex_escape (CHR ''u'' # CHR ''0'' # CHR ''0'' # hex_char (code c div 16)
           # hex_char (code c mod 16) # rest) = Inr (c, rest)"
proof -
  have d: "code c div 16 < 16" using assms by simp
  have z: "hex_val CHR ''0'' = Some 0" by (simp add: hex_val_def code_def)
  have n: "16 * (code c div 16) + code c mod 16 = code c" by simp
  have c: "char_of (code c) = c" by (simp add: code_def)
  show ?thesis
    using assms by (simp add: lex_escape_def hex4_def z hex_val_hex_char [OF d] hex_val_hex_char n c)
qed

lemma lex_string_escape_char:
  "lex_string (escape_char c @ rest) = scons c (lex_string rest)"
proof (cases "c = CHR 0x08 \<or> c = CHR 0x09 \<or> c = CHR 0x0A \<or> c = CHR 0x0C \<or> c = CHR 0x0D
                \<or> c = CHR 0x22 \<or> c = CHR 0x5C")
  case True
  then show ?thesis
    by (elim disjE) (simp_all add: escape_char_def lex_escape_def unescape_def)
next
  case False
  show ?thesis
  proof (cases "code c < 32")
    case True
    with False have "escape_char c = [CHR 0x5C, CHR ''u'', CHR ''0'', CHR ''0'',
        hex_char (code c div 16), hex_char (code c mod 16)]"
      by (simp add: escape_char_def)
    then show ?thesis
      using lex_escape_u00 [OF True] by simp
  next
    case nc: False
    with False have "escape_char c = [c]"
      by (simp add: escape_char_def)
    with False nc show ?thesis by simp
  qed
qed

lemma lex_string_escaped:
  "lex_string (concat (map escape_char s) @ CHR 0x22 # rest) = Inr (s, rest)"
  by (induction s) (simp_all add: lex_string_escape_char scons_def)

lemma lex_quote: "lex (quote s @ rest) = tcons (TStr s) (lex rest)"
  using lex_string_escaped [of s rest] by (simp add: quote_def is_ws_def code_def)

text \<open>The tokens of the JSON form of a record, and of a sequence of records.\<close>

definition item_tokens :: "ChecklistItem \<Rightarrow> token list" where
  "item_tokens it =
     [TLBrace, TStr ''text'', TColon, TStr (item_text it), TComma, TStr ''checked'', TColon,
      (if item_checked it then TTrue else TFalse), TRBrace]"

fun items_tokens :: "ChecklistItem list \<Rightarrow> token list" where
  "items_tokens [] = []"
| "items_tokens [it] = item_tokens it"
| "items_tokens (it # it' # its) = item_tokens it @ TComma # items_tokens (it' # its)"

lemma lex_true: "lex (''true'' @ rest) = tcons TTrue (lex rest)"
  by (simp add: is_ws_def is_digit_def code_def)

lemma lex_false: "lex (''false'' @ rest) = tcons TFalse (lex rest)"
  by (simp add: is_ws_def is_digit_def code_def)

lemma lex_punct:
  "lex (CHR ''{'' # rest) = tcons TLBrace (lex rest)"
  "lex (CHR ''}'' # rest) = tcons TRBrace (lex rest)"
  "lex (CHR ''['' # rest) = tcons TLBrack (lex rest)"
  "lex (CHR '']'' # rest) = tcons TRBrack (lex rest)"
  "lex (CHR '':'' # rest) = tcons TColon (lex rest)"
  "lex (CHR '','' # rest) = tcons TComma (lex rest)"
  by (simp_all add: is_ws_def)

lemma lex_item: "lex (JSON_stringify (item_json it) @ rest) = tapp (item_tokens it) (lex rest)"
proof -
  define b where "b = (if item_checked it then ''true'' else ''false'')"
  define t where "t = (if item_checked it then TTrue else TFalse)"
  have bt: "lex (b @ CHR ''}'' # rest) = tcons t (tcons TRBrace (lex rest))"
  proof (cases "item_checked it")
    case True
    then have "b = ''true''" "t = TTrue" by (simp_all add: b_def t_def)
    then show ?thesis using lex_true [of "CHR ''}'' # rest"] by (simp only: lex_punct)
  next
    case False
    then have "b = ''false''" "t = TFalse" by (simp_all add: b_def t_def)
    then show ?thesis using lex_false [of "CHR ''}'' # rest"] by (simp only: lex_punct)
  qed
  have eq: "JSON_stringify (item_json it) @ rest =
      CHR ''{'' # quote ''text'' @ CHR '':'' # quote (item_text it) @ CHR '','' #
      quote ''checked'' @ CHR '':'' # b @ CHR ''}'' # rest"
    by (simp add: item_json_def b_def)
  have "lex (JSON_stringify (item_json it) @ rest) =
      tcons TLBrace (tcons (TStr ''text'') (tcons TColon
      (tcons (TStr (item_text it)) (tcons TComma (tcons (TStr ''checked'') (tcons TColon
      (tcons t (tcons TRBrace (tapp [] (lex rest))))))))))"
    unfolding eq by (simp only: lex_punct lex_quote bt tapp_Nil)
  then show ?thesis
    by (simp only: tcons_tapp item_tokens_def t_def)
qed

lemma lex_items:
  "lex (join '','' (map (JSON_stringify \<circ> item_json) items) @ rest)
     = tapp (items_tokens items) (lex rest)"
proof (induction items rule: items_tokens.induct)
  case 1
  show ?case by (simp add: tapp_Nil)
next
  case (2 it)
  show ?case by (simp add: lex_item)
next
  case (3 it it' its)
  have "lex (join '','' (map (JSON_stringify \<circ> item_json) (it # it' # its)) @ rest)
      = lex (JSON_stringify (item_json it) @ CHR '','' #
             join '','' (map (JSON_stringify \<circ> item_json) (it' # its)) @ rest)"
    by simp
  also have "\<dots> = tapp (item_tokens it)
      (tcons TComma (lex (join '','' (map (JSON_stringify \<circ> item_json) (it' # its)) @ rest)))"
    by (simp only: lex_item lex_punct)
  also have "\<dots> = tapp (items_tokens (it # it' # its)) (lex rest)"
    by (simp only: "3.IH" tcons_tapp tapp_tapp items_tokens.simps)
  finally show ?case .
qed

lemma lex_checklist:
  "lex (JSON_stringify (checklist_json items)) = Inr (TLBrack # items_tokens items @ [TRBrack])"
proof -
  have "lex (JSON_stringify (checklist_json items))
      = lex (CHR ''['' # join '','' (map (JSON_stringify \<circ> item_json) items) @ '']'')"
    by (simp add: checklist_json_def)
  also have "\<dots> = tcons TLBrack (tapp (items_tokens items) (lex '']''))"
    by (simp only: lex_punct lex_items)
  also have "\<dots> = Inr (TLBrack # items_tokens items @ [TRBrack])"
    by (simp add: tapp_def tcons_def is_ws_def)
  finally show ?thesis .
qed

lemma obj_set_item:
  "obj_set ''checked'' c (obj_set ''text'' t []) = [(''text'', t), (''checked'', c)]"
  by (simp add: obj_set_def index_of_key_def is_digit_def code_def)

lemma parse_value_steps:
  "parse_value st (TStr s # ts) = parse_after (JString s) st ts"
  "parse_value st (TTrue # ts) = parse_after (JBool True) st ts"
  "parse_value st (TFalse # ts) = parse_after (JBool False) st ts"
  "parse_value st (TLBrace # TStr k # TColon # ts) = parse_value (FObject [] k # st) ts"
  "parse_value st (TLBrack # TLBrace # ts) = parse_value (FArray [] # st) (TLBrace # ts)"
  "parse_value st (TLBrack # TRBrack # ts) = parse_after (JArray []) st ts"
  by (subst parse_value.simps, simp)+

lemma parse_after_steps:
  "parse_after v [] [] = Inr v"
  "parse_after v (FArray xs # st) (TComma # ts) = parse_value (FArray (xs @ [v]) # st) ts"
  "parse_after v (FArray xs # st) (TRBrack # ts) = parse_after (JArray (xs @ [v])) st ts"
  "parse_after v (FObject ps k # st) (TComma # TStr k' # TColon # ts)
     = parse_value (FObject (obj_set k v ps) k' # st) ts"
  "parse_after v (FObject ps k # st) (TRBrace # ts) = parse_after (JObject (obj_set k v ps)) st ts"
  by (subst parse_after.simps, simp)+

lemma parse_item:
  "parse_value st (item_tokens it @ ts) = parse_after (item_json it) st ts"
  by (simp add: item_tokens_def parse_value_steps parse_after_steps obj_set_item item_json_def)

lemma parse_items_after:
  "parse_after v (FArray acc # st) (concat (map (\<lambda>it. TComma # item_tokens it) its) @ TRBrack # ts)
     = parse_after (JArray (acc @ v # map item_json its)) st ts"
proof (induction its arbitrary: acc v)
  case Nil
  show ?case by (simp add: parse_after_steps)
next
  case (Cons it its)
  have "parse_after v (FArray acc # st)
          (concat (map (\<lambda>it. TComma # item_tokens it) (it # its)) @ TRBrack # ts)
      = parse_value (FArray (acc @ [v]) # st)
          (item_tokens it @ concat (map (\<lambda>it. TComma # item_tokens it) its) @ TRBrack # ts)"
    by (simp add: parse_after_steps)
  also have "\<dots> = parse_after (item_json it) (FArray (acc @ [v]) # st)
          (concat (map (\<lambda>it. TComma # item_tokens it) its) @ TRBrack # ts)"
    by (rule parse_item)
  also have "\<dots> = parse_after (JArray ((acc @ [v]) @ item_json it # map item_json its)) st ts"
    by (rule Cons.IH)
  finally show ?case by simp
qed

lemma items_tokens_Cons:
  "items_tokens (it # its) = item_tokens it @ concat (map (\<lambda>it. TComma # item_tokens it) its)"
  by (induction its arbitrary: it) simp_all

lemma parse_checklist_tokens:
  "parse_value [] (TLBrack # items_tokens items @ [TRBrack]) = Inr (checklist_json items)"
proof (cases items)
  case Nil
  then show ?thesis
    by (simp add: parse_value_steps parse_after_steps checklist_json_def)
next
  case (Cons it its)
  have "parse_value [] (TLBrack # items_tokens items @ [TRBrack])
      = parse_value [FArray []]
          (item_tokens it @ concat (map (\<lambda>it. TComma # item_tokens it) its) @ [TRBrack])"
    unfolding Cons items_tokens_Cons
    by (simp add: item_tokens_def parse_value_steps)
  also have "\<dots> = parse_after (item_json it) [FArray []]
          (concat (map (\<lambda>it. TComma # item_tokens it) its) @ [TRBrack])"
    by (rule parse_item)
  also have "\<dots> = parse_after (JArray ([] @ item_json it # map item_json its)) [] []"
    by (rule parse_items_after)
  finally show ?thesis
    by (simp add: parse_after_steps checklist_json_def Cons)
qed

text \<open>Every sequence of records is read back from its stored text.\<close>

lemma parse_stringify_checklist:
  "JSON_parse (JSON_stringify (checklist_json items)) = Inr (checklist_json items)"
  by (simp add: JSON_parse_def lex_checklist parse_checklist_tokens)

lemma stringify_checklist_nonempty: "JSON_stringify (checklist_json items) \<noteq> []"
  by (simp add: checklist_json_def)

section \<open>Loading the checklist\<close>

lemma stored_checklist_written:
  "storage p CHECKLIST_STORAGE_KEY = Some (JSON_stringify (checklist_json items))
     \<Longrightarrow> stored_checklist p items"
  by (simp add: stored_checklist_def loadChecklist_def parse_stringify_checklist
                stringify_checklist_nonempty)

text \<open>
  C1, as the script has it. \<^verbatim>\<open>loadChecklist\<close> returns the empty sequence when the key is
  absent or holds the empty text; for any other stored text it returns whatever
  \<^verbatim>\<open>JSON.parse\<close> returns or throws: the ordered sequence of records when the text is the
  JSON form of one, the parsed value unchanged when that is not a sequence, and the
  \<^verbatim>\<open>SyntaxError\<close> of \<^verbatim>\<open>JSON.parse\<close> when the text is malformed. Nothing is caught.
\<close>

theorem loadChecklist_cases:
  "(storage p CHECKLIST_STORAGE_KEY = None \<longrightarrow> loadChecklist p = Inr (JArray []))
   \<and> (storage p CHECKLIST_STORAGE_KEY = Some [] \<longrightarrow> loadChecklist p = Inr (JArray []))
   \<and> (\<forall>s. storage p CHECKLIST_STORAGE_KEY = Some s \<and> s \<noteq> [] \<longrightarrow> loadChecklist p = JSON_parse s)
   \<and> (storage p CHECKLIST_STORAGE_KEY = Some (JSON_stringify (checklist_json items))
        \<longrightarrow> loadChecklist p = Inr (checklist_json items))"
  using stored_checklist_written [of p items]
  by (auto simp: loadChecklist_def stored_checklist_def)

theorem loadChecklist_cases_witness:
  "loadChecklist empty_page = Inr (JArray [])
   \<and> loadChecklist (empty_page\<lparr>storage := [CHECKLIST_STORAGE_KEY \<mapsto> []]\<rparr>) = Inr (JArray [])
   \<and> loadChecklist (empty_page\<lparr>storage := [CHECKLIST_STORAGE_KEY \<mapsto> ''[1''] \<rparr>) = Inl SyntaxError
   \<and> loadChecklist (empty_page\<lparr>storage := [CHECKLIST_STORAGE_KEY \<mapsto>
          ''[{\"text\":\"Buy milk\",\"checked\":false}]'']\<rparr>)
       = Inr (JArray [JObject [(''text'', JString ''Buy milk''), (''checked'', JBool False)]])"
proof -
  let ?it = "\<lparr>item_text = ''Buy milk'', item_checked = False\<rparr>"
  have s: "JSON_stringify (checklist_json [?it]) = ''[{\"text\":\"Buy milk\",\"checked\":false}]''"
    by code_simp
  have j: "checklist_json [?it]
      = JArray [JObject [(''text'', JString ''Buy milk''), (''checked'', JBool False)]]"
    by (simp add: checklist_json_def item_json_def)
  have p: "JSON_parse ''[1'' = Inl SyntaxError"
    by code_simp
  let ?P2 = "empty_page\<lparr>storage := [CHECKLIST_STORAGE_KEY \<mapsto> []]\<rparr>"
  let ?P3 = "empty_page\<lparr>storage := [CHECKLIST_STORAGE_KEY \<mapsto> ''[1'']\<rparr>"
  let ?P4 = "empty_page\<lparr>storage := [CHECKLIST_STORAGE_KEY \<mapsto>
          ''[{\"text\":\"Buy milk\",\"checked\":false}]'']\<rparr>"
  have h1: "storage empty_page CHECKLIST_STORAGE_KEY = None"
    by (simp add: empty_page_def)
  have h2: "storage ?P2 CHECKLIST_STORAGE_KEY = Some []"
    by simp
  have h3: "storage ?P3 CHECKLIST_STORAGE_KEY = Some ''[1'' \<and> ''[1'' \<noteq> []"
    by simp
  have h4: "storage ?P4 CHECKLIST_STORAGE_KEY = Some (JSON_stringify (checklist_json [?it]))"
    by (simp add: s)
  have c1: "loadChecklist empty_page = Inr (JArray [])"
    using loadChecklist_cases [of empty_page "[]"] h1 by blast
  have c2: "loadChecklist ?P2 = Inr (JArray [])"
    using loadChecklist_cases [of ?P2 "[]"] h2 by blast
  have c3: "loadChecklist ?P3 = Inl SyntaxError"
    using loadChecklist_cases [of ?P3 "[]"] h3 p by metis
  have c4: "loadChecklist ?P4 = Inr (checklist_json [?it])"
    using loadChecklist_cases [of ?P4 "[?it]"] h4 by blast
  show ?thesis
    using c1 c2 c3 c4 unfolding j by blast
qed

text \<open>
  C1 as stated fails: a malformed stored text makes \<^verbatim>\<open>loadChecklist\<close> throw, and a stored
  text of another shape is returned as it is, not replaced by the empty sequence.
\<close>

theorem loadChecklist_malformed_counterexample:
  "loadChecklist (empty_page\<lparr>storage := [CHECKLIST_STORAGE_KEY \<mapsto> ''{'']\<rparr>) = Inl SyntaxError
   \<and> loadChecklist (empty_page\<lparr>storage := [CHECKLIST_STORAGE_KEY \<mapsto> ''{}'']\<rparr>) = Inr (JObject [])
   \<and> Inr (JObject []) \<noteq> (Inr (JArray []) :: error + json)"
  by code_simp

section \<open>Checklist operations on a stored checklist\<close>

lemma render_rows_items:
  "render_rows (map item_json items) i acc
     = (Done, acc @ map (\<lambda>(j, it). item_row j it) (enumerate i items))"
  by (induction items arbitrary: i acc) (simp_all add: item_json_def item_row_def)

lemma renderChecklist_stored:
  assumes "stored_checklist p items"
  shows "renderChecklist el p = (Done, p\<lparr>rows := (rows p)(el := checklist_rows items)\<rparr>)"
  using assms
  by (simp add: renderChecklist_def stored_checklist_def checklist_json_def render_rows_items
                checklist_rows_def)

lemma stored_checklist_save:
  "stored_checklist (saveChecklist (checklist_json items) p) items"
  by (rule stored_checklist_written) (simp add: saveChecklist_def)

lemma save_render_stored:
  "renderChecklist el (saveChecklist (checklist_json items) p)
     = (Done, (saveChecklist (checklist_json items) p)\<lparr>rows := (rows p)(el := checklist_rows items)\<rparr>)"
  using renderChecklist_stored [OF stored_checklist_save, of el items p]
  by (simp add: saveChecklist_def)

lemma stored_checklist_rows_upd:
  "stored_checklist (p\<lparr>rows := r\<rparr>) items = stored_checklist p items"
  by (simp add: stored_checklist_def loadChecklist_def)

lemma splice1_map: "splice1 k (map f xs) = map f (splice1 k xs)"
  by (simp add: splice1_def Let_def take_map drop_map)

text \<open>What \<^verbatim>\<open>deleteItem\<close> does to a stored checklist, for any index.\<close>

lemma deleteItem_stored:
  assumes "stored_checklist p items"
  shows "deleteItem k el p
     = (Done, (saveChecklist (checklist_json (splice1 k items)) p)
                \<lparr>rows := (rows p)(el := checklist_rows (splice1 k items))\<rparr>)"
proof -
  have l: "loadChecklist p = Inr (JArray (map item_json items))"
    using assms by (simp add: stored_checklist_def checklist_json_def)
  have "deleteItem k el p
      = renderChecklist el (saveChecklist (checklist_json (splice1 k items)) p)"
    by (simp add: deleteItem_def l splice1_map checklist_json_def)
  then show ?thesis by (simp only: save_render_stored)
qed

lemma splice1_in_range:
  assumes "0 \<le> k" "k < int (length xs)"
  shows "splice1 k xs = take (nat k) xs @ drop (Suc (nat k)) xs"
proof -
  have "nat (k + 1) = Suc (nat k)" using assms by simp
  with assms show ?thesis by (simp add: splice1_def Let_def min_def max_def)
qed

text \<open>
  C3. On a stored checklist of \<open>n \<ge> 1\<close> records and an index \<open>0 \<le> k < n\<close>,
  \<^verbatim>\<open>deleteItem\<close> completes, writes the JSON form of a sequence of \<open>n - 1\<close> records under the
  checklist key (so that sequence is what is loaded afterwards) and renders it; every
  record before position \<open>k\<close> is where it was, and every record from position \<open>k\<close> on
  is the one that stood one place later: the former \<open>k + 1\<close> is at \<open>k\<close>.
\<close>

theorem deleteItem_in_range:
  assumes "stored_checklist p items" and "0 \<le> k" and "k < int (length items)"
  shows "let p' = snd (deleteItem k el p);
             items' = take (nat k) items @ drop (Suc (nat k)) items
         in fst (deleteItem k el p) = Done
            \<and> storage p' CHECKLIST_STORAGE_KEY = Some (JSON_stringify (checklist_json items'))
            \<and> stored_checklist p' items'
            \<and> rows p' el = checklist_rows items'
            \<and> length items' = length items - 1
            \<and> (\<forall>i. i < nat k \<longrightarrow> items' ! i = items ! i)
            \<and> (\<forall>i. nat k \<le> i \<and> i < length items' \<longrightarrow> items' ! i = items ! Suc i)"
proof -
  let ?items' = "take (nat k) items @ drop (Suc (nat k)) items"
  have d: "deleteItem k el p
      = (Done, (saveChecklist (checklist_json ?items') p)\<lparr>rows := (rows p)(el := checklist_rows ?items')\<rparr>)"
    using deleteItem_stored [OF assms(1), of k el] splice1_in_range [OF assms(2,3)] by simp
  have k: "nat k < length items" using assms by simp
  have len: "length ?items' = length items - 1" using k by simp
  have before: "\<forall>i. i < nat k \<longrightarrow> ?items' ! i = items ! i"
    using k by (simp add: nth_append)
  have after: "\<forall>i. nat k \<le> i \<and> i < length ?items' \<longrightarrow> ?items' ! i = items ! Suc i"
  proof (intro allI impI)
    fix i assume i: "nat k \<le> i \<and> i < length ?items'"
    then have "?items' ! i = drop (Suc (nat k)) items ! (i - nat k)"
      using k by (simp add: nth_append min_def)
    also have "\<dots> = items ! Suc i"
      using i k by simp
    finally show "?items' ! i = items ! Suc i" .
  qed
  have st: "stored_checklist (snd (deleteItem k el p)) ?items'"
    unfolding d by (simp add: stored_checklist_rows_upd stored_checklist_save)
  have sto: "storage (snd (deleteItem k el p)) CHECKLIST_STORAGE_KEY
      = Some (JSON_stringify (checklist_json ?items'))"
    unfolding d by (simp add: saveChecklist_def)
  have rw: "rows (snd (deleteItem k el p)) el = checklist_rows ?items'"
    unfolding d by simp
  have dn: "fst (deleteItem k el p) = Done"
    unfolding d by simp
  show ?thesis
    unfolding Let_def using dn sto st rw len before after by blast
qed

text \<open>A page whose storage holds two records, used to run the operations.\<close>

definition two_items :: "ChecklistItem list" where
  "two_items = [\<lparr>item_text = ''Buy milk'', item_checked = False\<rparr>,
                \<lparr>item_text = ''Walk'', item_checked = True\<rparr>]"

definition two_items_page :: page where
  "two_items_page = empty_page\<lparr>storage := [CHECKLIST_STORAGE_KEY \<mapsto>
     ''[{\"text\":\"Buy milk\",\"checked\":false},{\"text\":\"Walk\",\"checked\":true}]'']\<rparr>"

lemma two_items_stored: "stored_checklist two_items_page two_items"
  unfolding stored_checklist_def by code_simp

theorem deleteItem_in_range_witness:
  "stored_checklist two_items_page two_items \<and> (0::int) \<le> 0 \<and> (0::int) < int (length two_items)
   \<and> fst (deleteItem 0 ''checklist'' two_items_page) = Done
   \<and> storage (snd (deleteItem 0 ''checklist'' two_items_page)) CHECKLIST_STORAGE_KEY
        = Some ''[{\"text\":\"Walk\",\"checked\":true}]''
   \<and> stored_checklist (snd (deleteItem 0 ''checklist'' two_items_page))
        [\<lparr>item_text = ''Walk'', item_checked = True\<rparr>]"
proof -
  have r: "(0::int) \<le> 0" "(0::int) < int (length two_items)"
    by (simp_all add: two_items_def)
  have e: "take (nat 0) two_items @ drop (Suc (nat 0)) two_items
      = [\<lparr>item_text = ''Walk'', item_checked = True\<rparr>]"
    by (simp add: two_items_def)
  have s: "JSON_stringify (checklist_json [\<lparr>item_text = ''Walk'', item_checked = True\<rparr>])
      = ''[{\"text\":\"Walk\",\"checked\":true}]''"
    by code_simp
  show ?thesis
    using deleteItem_in_range [OF two_items_stored r, of "''checklist''"] two_items_stored r
    unfolding Let_def e s by blast
qed

text \<open>
  C10, as the script has it. On a stored checklist of \<open>n\<close> records, \<^verbatim>\<open>deleteItem\<close> with an
  index \<open>k \<ge> n\<close> does not throw, removes nothing, and still writes the sequence back
  and renders it. With an index \<open>k < - n\<close> it does not throw either, but \<^verbatim>\<open>splice\<close> clamps
  the start to 0 and the first record, if there is one, is removed.
\<close>

theorem deleteItem_out_of_range:
  assumes "stored_checklist p items"
  shows "(int (length items) \<le> k \<longrightarrow>
            fst (deleteItem k el p) = Done
            \<and> stored_checklist (snd (deleteItem k el p)) items
            \<and> storage (snd (deleteItem k el p)) CHECKLIST_STORAGE_KEY
                 = Some (JSON_stringify (checklist_json items))
            \<and> rows (snd (deleteItem k el p)) el = checklist_rows items)
         \<and> (k < - int (length items) \<longrightarrow>
            fst (deleteItem k el p) = Done
            \<and> stored_checklist (snd (deleteItem k el p)) (drop 1 items)
            \<and> storage (snd (deleteItem k el p)) CHECKLIST_STORAGE_KEY
                 = Some (JSON_stringify (checklist_json (drop 1 items)))
            \<and> rows (snd (deleteItem k el p)) el = checklist_rows (drop 1 items))"
proof -
  have hi: "splice1 k items = items" if "int (length items) \<le> k"
    using that by (simp add: splice1_def Let_def min_def max_def)
  have lo: "splice1 k items = drop 1 items" if "k < - int (length items)"
    using that by (cases items) (simp_all add: splice1_def Let_def min_def max_def)
  have d: "deleteItem k el p
      = (Done, (saveChecklist (checklist_json (splice1 k items)) p)
                 \<lparr>rows := (rows p)(el := checklist_rows (splice1 k items))\<rparr>)"
    by (rule deleteItem_stored [OF assms])
  have st: "stored_checklist (snd (deleteItem k el p)) (splice1 k items)"
    unfolding d by (simp add: stored_checklist_rows_upd stored_checklist_save)
  have sto: "storage (snd (deleteItem k el p)) CHECKLIST_STORAGE_KEY
      = Some (JSON_stringify (checklist_json (splice1 k items)))"
    unfolding d by (simp add: saveChecklist_def)
  have rw: "rows (snd (deleteItem k el p)) el = checklist_rows (splice1 k items)"
    unfolding d by simp
  have dn: "fst (deleteItem k el p) = Done"
    unfolding d by simp
  show ?thesis
    using dn st sto rw hi lo by metis
qed

theorem deleteItem_out_of_range_witness:
  "stored_checklist two_items_page two_items
   \<and> int (length two_items) \<le> 2
   \<and> fst (deleteItem 2 ''checklist'' two_items_page) = Done
   \<and> stored_checklist (snd (deleteItem 2 ''checklist'' two_items_page)) two_items
   \<and> - 5 < - int (length two_items)
   \<and> fst (deleteItem (- 5) ''checklist'' two_items_page) = Done
   \<and> stored_checklist (snd (deleteItem (- 5) ''checklist'' two_items_page))
        [\<lparr>item_text = ''Walk'', item_checked = True\<rparr>]"
proof -
  have r: "int (length two_items) \<le> 2" "- 5 < - int (length two_items)"
    by (simp_all add: two_items_def)
  have e: "drop 1 two_items = [\<lparr>item_text = ''Walk'', item_checked = True\<rparr>]"
    by (simp add: two_items_def)
  show ?thesis
    using deleteItem_out_of_range [OF two_items_stored, of 2 "''checklist''"]
      deleteItem_out_of_range [OF two_items_stored, of "- 5" "''checklist''"]
      two_items_stored r
    unfolding e by blast
qed

text \<open>
  C10 as stated fails for an index below \<open>- n\<close>: on the stored two records, index \<open>- 5\<close>
  removes the first record, so what is stored afterwards differs from what was loaded.
\<close>

theorem deleteItem_negative_counterexample:
  "loadChecklist two_items_page = Inr (checklist_json two_items)
   \<and> fst (deleteItem (- 5) ''checklist'' two_items_page) = Done
   \<and> loadChecklist (snd (deleteItem (- 5) ''checklist'' two_items_page))
        = Inr (JArray [JObject [(''text'', JString ''Walk''), (''checked'', JBool True)]])
   \<and> loadChecklist (snd (deleteItem (- 5) ''checklist'' two_items_page))
        \<noteq> loadChecklist two_items_page"
  by code_simp

lemma item_json_toggle:
  "assign_prop (item_json it) ''checked'' (JBool (\<not> truthy (get_prop (item_json it) ''checked'')))
     = item_json (it\<lparr>item_checked := \<not> item_checked it\<rparr>)"
  by (simp add: item_json_def obj_set_def)

text \<open>
  C4. On a stored checklist and an index \<open>0 \<le> k < length\<close>, \<^verbatim>\<open>toggleItem\<close> completes
  and writes back (and renders) the same sequence with the \<open>checked\<close> field of the
  record at position \<open>k\<close> negated: the length, the order, every other record and the
  text of record \<open>k\<close> are as before.
\<close>

theorem toggleItem_in_range:
  assumes "stored_checklist p items" and "0 \<le> k" and "k < int (length items)"
  shows "let p' = snd (toggleItem k el p);
             items' = items[nat k := (items ! nat k)\<lparr>item_checked := \<not> item_checked (items ! nat k)\<rparr>]
         in fst (toggleItem k el p) = Done
            \<and> storage p' CHECKLIST_STORAGE_KEY = Some (JSON_stringify (checklist_json items'))
            \<and> stored_checklist p' items'
            \<and> rows p' el = checklist_rows items'
            \<and> length items' = length items
            \<and> (\<forall>i. i < length items \<and> i \<noteq> nat k \<longrightarrow> items' ! i = items ! i)
            \<and> item_text (items' ! nat k) = item_text (items ! nat k)
            \<and> item_checked (items' ! nat k) = (\<not> item_checked (items ! nat k))"
proof -
  let ?it = "items ! nat k"
  let ?items' = "items[nat k := ?it\<lparr>item_checked := \<not> item_checked ?it\<rparr>]"
  have k: "nat k < length items" using assms by simp
  have l: "loadChecklist p = Inr (JArray (map item_json items))"
    using assms(1) by (simp add: stored_checklist_def checklist_json_def)
  have ix: "js_index (JArray (map item_json items)) k = Inr (Some (item_json ?it))"
    using assms(2,3) k by simp
  have nn: "item_json ?it \<noteq> JNull" by (simp add: item_json_def)
  have put: "put_index (JArray (map item_json items)) k
               (item_json (?it\<lparr>item_checked := \<not> item_checked ?it\<rparr>))
      = checklist_json ?items'"
    by (simp add: checklist_json_def map_update)
  have "toggleItem k el p = renderChecklist el (saveChecklist (checklist_json ?items') p)"
    by (simp only: toggleItem_def l ix sum.case option.case nn if_False Let_def
          item_json_toggle put)
  then have d: "toggleItem k el p
      = (Done, (saveChecklist (checklist_json ?items') p)\<lparr>rows := (rows p)(el := checklist_rows ?items')\<rparr>)"
    by (simp only: save_render_stored)
  have st: "stored_checklist (snd (toggleItem k el p)) ?items'"
    unfolding d by (simp add: stored_checklist_rows_upd stored_checklist_save)
  have sto: "storage (snd (toggleItem k el p)) CHECKLIST_STORAGE_KEY
      = Some (JSON_stringify (checklist_json ?items'))"
    unfolding d by (simp add: saveChecklist_def)
  have rw: "rows (snd (toggleItem k el p)) el = checklist_rows ?items'"
    unfolding d by simp
  have dn: "fst (toggleItem k el p) = Done"
    unfolding d by simp
  have len: "length ?items' = length items" by simp
  have others: "\<forall>i. i < length items \<and> i \<noteq> nat k \<longrightarrow> ?items' ! i = items ! i"
    by simp
  have tx: "item_text (?items' ! nat k) = item_text ?it"
    using k by simp
  have ch: "item_checked (?items' ! nat k) = (\<not> item_checked ?it)"
    using k by simp
  show ?thesis
    unfolding Let_def using dn sto st rw len others tx ch by blast
qed

theorem toggleItem_in_range_witness:
  "stored_checklist two_items_page two_items \<and> (0::int) \<le> 1 \<and> (1::int) < int (length two_items)
   \<and> fst (toggleItem 1 ''checklist'' two_items_page) = Done
   \<and> storage (snd (toggleItem 1 ''checklist'' two_items_page)) CHECKLIST_STORAGE_KEY
        = Some ''[{\"text\":\"Buy milk\",\"checked\":false},{\"text\":\"Walk\",\"checked\":false}]''
   \<and> stored_checklist (snd (toggleItem 1 ''checklist'' two_items_page))
        [\<lparr>item_text = ''Buy milk'', item_checked = False\<rparr>,
         \<lparr>item_text = ''Walk'', item_checked = False\<rparr>]"
proof -
  have r: "(0::int) \<le> 1" "(1::int) < int (length two_items)"
    by (simp_all add: two_items_def)
  have e: "two_items[nat 1 := (two_items ! nat 1)\<lparr>item_checked := \<not> item_checked (two_items ! nat 1)\<rparr>]
      = [\<lparr>item_text = ''Buy milk'', item_checked = False\<rparr>,
         \<lparr>item_text = ''Walk'', item_checked = False\<rparr>]"
    by (simp add: two_items_def)
  have s: "JSON_stringify (checklist_json [\<lparr>item_text = ''Buy milk'', item_checked = False\<rparr>,
         \<lparr>item_text = ''Walk'', item_checked = False\<rparr>])
      = ''[{\"text\":\"Buy milk\",\"checked\":false},{\"text\":\"Walk\",\"checked\":false}]''"
    by code_simp
  show ?thesis
    using toggleItem_in_range [OF two_items_stored r, of "''checklist''"] two_items_stored r
    unfolding Let_def e s by blast
qed

text \<open>
  C5. When the text of the input box is empty after trimming, \<^verbatim>\<open>addItem\<close> returns at
  once: the page, its storage included, is exactly as before. Otherwise, on a stored
  sequence, it appends the record with the trimmed text and \<open>checked = false\<close> at the
  end, writes the JSON form of the longer sequence under the checklist key, empties the
  input box and renders; on a stored checklist the longer checklist is what is loaded
  afterwards.
\<close>

theorem addItem_cases:
  "(trim (elem_value p inputBox) = [] \<longrightarrow> addItem inputBox el p = (Done, p))
   \<and> (trim (elem_value p inputBox) \<noteq> [] \<and> loadChecklist p = Inr (JArray xs) \<longrightarrow>
        storage (snd (addItem inputBox el p)) CHECKLIST_STORAGE_KEY
          = Some (JSON_stringify (JArray (xs @
              [JObject [(''text'', JString (trim (elem_value p inputBox))),
                        (''checked'', JBool False)]])))
        \<and> elem_value (snd (addItem inputBox el p)) inputBox = [])
   \<and> (trim (elem_value p inputBox) \<noteq> [] \<and> stored_checklist p items \<longrightarrow>
        fst (addItem inputBox el p) = Done
        \<and> stored_checklist (snd (addItem inputBox el p))
             (items @ [\<lparr>item_text = trim (elem_value p inputBox), item_checked = False\<rparr>])
        \<and> rows (snd (addItem inputBox el p)) el
             = checklist_rows (items @ [\<lparr>item_text = trim (elem_value p inputBox),
                                          item_checked = False\<rparr>]))"
proof (intro conjI impI)
  assume "trim (elem_value p inputBox) = []"
  then show "addItem inputBox el p = (Done, p)"
    by (simp add: addItem_def)
next
  let ?t = "trim (elem_value p inputBox)"
  let ?new = "JObject [(''text'', JString ?t), (''checked'', JBool False)]"
  assume a: "?t \<noteq> [] \<and> loadChecklist p = Inr (JArray xs)"
  have rs: "storage (snd (renderChecklist el q)) = storage q"
           "props (snd (renderChecklist el q)) = props q" for q
    by (auto simp: renderChecklist_def Let_def split: sum.splits json.splits prod.splits)
  have "addItem inputBox el p
      = renderChecklist el (saveChecklist (JArray (xs @ [?new])) (set_prop inputBox ''value'' [] p))"
    using a by (simp add: addItem_def Let_def)
  then show "storage (snd (addItem inputBox el p)) CHECKLIST_STORAGE_KEY
          = Some (JSON_stringify (JArray (xs @ [?new])))"
    and "elem_value (snd (addItem inputBox el p)) inputBox = []"
    by (simp_all add: rs saveChecklist_def set_prop_def elem_value_def)
next
  let ?t = "trim (elem_value p inputBox)"
  let ?it = "\<lparr>item_text = ?t, item_checked = False\<rparr>"
  assume a: "?t \<noteq> [] \<and> stored_checklist p items"
  then have l: "loadChecklist p = Inr (JArray (map item_json items))"
    by (simp add: stored_checklist_def checklist_json_def)
  have j: "JArray (map item_json items @ [JObject [(''text'', JString ?t), (''checked'', JBool False)]])
      = checklist_json (items @ [?it])"
    by (simp add: checklist_json_def item_json_def)
  have "addItem inputBox el p
      = renderChecklist el (saveChecklist (checklist_json (items @ [?it]))
          (set_prop inputBox ''value'' [] p))"
    using a by (simp add: addItem_def Let_def l j)
  then have d: "addItem inputBox el p
      = (Done, (saveChecklist (checklist_json (items @ [?it])) (set_prop inputBox ''value'' [] p))
                 \<lparr>rows := (rows (set_prop inputBox ''value'' [] p))(el := checklist_rows (items @ [?it]))\<rparr>)"
    by (simp only: save_render_stored)
  show "fst (addItem inputBox el p) = Done"
    unfolding d by simp
  show "stored_checklist (snd (addItem inputBox el p)) (items @ [?it])"
    unfolding d by (simp add: stored_checklist_rows_upd stored_checklist_save)
  show "rows (snd (addItem inputBox el p)) el = checklist_rows (items @ [?it])"
    unfolding d by simp
qed

definition blank_input_page :: page where
  "blank_input_page = two_items_page\<lparr>props := [(''inputBox'', ''value'') \<mapsto> ''   '']\<rparr>"

definition tea_input_page :: page where
  "tea_input_page = two_items_page\<lparr>props := [(''inputBox'', ''value'') \<mapsto> ''  Tea '']\<rparr>"

theorem addItem_cases_witness:
  "trim (elem_value blank_input_page ''inputBox'') = []
   \<and> addItem ''inputBox'' ''checklist'' blank_input_page = (Done, blank_input_page)
   \<and> trim (elem_value tea_input_page ''inputBox'') = ''Tea''
   \<and> stored_checklist tea_input_page two_items
   \<and> fst (addItem ''inputBox'' ''checklist'' tea_input_page) = Done
   \<and> storage (snd (addItem ''inputBox'' ''checklist'' tea_input_page)) CHECKLIST_STORAGE_KEY
        = Some (''[{\"text\":\"Buy milk\",\"checked\":false},{\"text\":\"Walk\",\"checked\":true},''
                @ ''{\"text\":\"Tea\",\"checked\":false}]'')
   \<and> elem_value (snd (addItem ''inputBox'' ''checklist'' tea_input_page)) ''inputBox'' = []
   \<and> stored_checklist (snd (addItem ''inputBox'' ''checklist'' tea_input_page))
        (two_items @ [\<lparr>item_text = ''Tea'', item_checked = False\<rparr>])"
proof -
  have b: "trim (elem_value blank_input_page ''inputBox'') = []"
    by code_simp
  have t: "trim (elem_value tea_input_page ''inputBox'') = ''Tea''"
    by code_simp
  have tn: "trim (elem_value tea_input_page ''inputBox'') \<noteq> []"
    unfolding t by simp
  have st: "stored_checklist tea_input_page two_items"
    unfolding stored_checklist_def by code_simp
  have l: "loadChecklist tea_input_page = Inr (JArray (map item_json two_items))"
    using st by (simp add: stored_checklist_def checklist_json_def)
  have s: "JSON_stringify (JArray (map item_json two_items @
              [JObject [(''text'', JString ''Tea''), (''checked'', JBool False)]]))
      = ''[{\"text\":\"Buy milk\",\"checked\":false},{\"text\":\"Walk\",\"checked\":true},''
                @ ''{\"text\":\"Tea\",\"checked\":false}]''"
    by code_simp
  note w1 = addItem_cases [of blank_input_page "''inputBox''" "''checklist''" "[]" "[]"]
  note w2 = addItem_cases [of tea_input_page "''inputBox''" "''checklist''"
               "map item_json two_items" two_items, unfolded t s]
  show ?thesis
    using w1 w2 b t tn st l by (simp only: simp_thms)
qed

section \<open>Password gate\<close>

text \<open>The value a message names between its first pair of apostrophes.\<close>

definition quoted_value :: "string \<Rightarrow> string" where
  "quoted_value msg =
     takeWhile (\<lambda>c. c \<noteq> CHR 0x27) (drop 1 (dropWhile (\<lambda>c. c \<noteq> CHR 0x27) msg))"

text \<open>
  C9. \<^verbatim>\<open>checkPassword\<close> navigates to the main page exactly when the password input
  exists and holds \<^verbatim>\<open>twentyone\<close>; in every other case it shows the failure message. The
  value that message names is \<^verbatim>\<open>1234\<close>, which is not the accepted value: typing the
  hinted value is rejected again, with the same message and no navigation.
\<close>

theorem checkPassword_hint_inconsistent:
  "checkPassword p
     = (if ''passwordInput'' \<in> elements p \<and> elem_value p ''passwordInput'' = ''twentyone''
        then p\<lparr>location := Some ''main.html''\<rparr>
        else p\<lparr>alerts := alerts p @ [failure_message]\<rparr>)
   \<and> quoted_value failure_message = ''1234''
   \<and> quoted_value failure_message \<noteq> accepted_password
   \<and> location (checkPassword (set_prop ''passwordInput'' ''value'' (quoted_value failure_message) p))
        = location p
   \<and> alerts (checkPassword (set_prop ''passwordInput'' ''value'' (quoted_value failure_message) p))
        = alerts p @ [failure_message]"
proof -
  have q: "quoted_value failure_message = ''1234''"
    by (simp add: quoted_value_def failure_message_def)
  have c: "checkPassword p
     = (if ''passwordInput'' \<in> elements p \<and> elem_value p ''passwordInput'' = ''twentyone''
        then p\<lparr>location := Some ''main.html''\<rparr>
        else p\<lparr>alerts := alerts p @ [failure_message]\<rparr>)" for p
    by (simp add: checkPassword_def getElement_def accepted_password_def)
  have v: "elem_value (set_prop ''passwordInput'' ''value'' ''1234'' p) ''passwordInput'' = ''1234''"
    by (simp add: elem_value_def set_prop_def)
  have r: "checkPassword (set_prop ''passwordInput'' ''value'' ''1234'' p)
      = (set_prop ''passwordInput'' ''value'' ''1234'' p)
          \<lparr>alerts := alerts (set_prop ''passwordInput'' ''value'' ''1234'' p) @ [failure_message]\<rparr>"
    unfolding c v by simp
  show ?thesis
    unfolding q r using c [of p] by (simp add: accepted_password_def set_prop_def)
qed

section \<open>Month navigation\<close>

lemma generateCalendar_month_year:
  "currentMonth (snd (generateCalendar p)) = currentMonth p
   \<and> currentYear (snd (generateCalendar p)) = currentYear p"
  by (simp add: generateCalendar_def getElement_def set_prop_def Let_def
           split: sum.splits prod.splits)

lemma navigateMonth_month_year:
  "currentMonth (snd (navigateMonth d p))
     = (if currentMonth p + d < 0 then 11 else if currentMonth p + d > 11 then 0
        else currentMonth p + d)
   \<and> currentYear (snd (navigateMonth d p))
     = (if currentMonth p + d < 0 then currentYear p - 1
        else if currentMonth p + d > 11 then currentYear p + 1 else currentYear p)"
  by (simp add: navigateMonth_def Let_def generateCalendar_month_year)

text \<open>
  C7. Whatever the page and whether the grid can be generated or not, after
  \<^verbatim>\<open>navigateMonth(1)\<close> from December of year \<open>Y\<close> the state is January of \<open>Y + 1\<close>, after
  \<^verbatim>\<open>navigateMonth(-1)\<close> from January of \<open>Y\<close> it is December of \<open>Y - 1\<close>, and from every
  other month the month moves by exactly one and the year stays.
\<close>

theorem navigateMonth_transitions:
  "(currentMonth p = 11 \<longrightarrow>
      currentMonth (snd (navigateMonth 1 p)) = 0
      \<and> currentYear (snd (navigateMonth 1 p)) = currentYear p + 1)
   \<and> (currentMonth p = 0 \<longrightarrow>
      currentMonth (snd (navigateMonth (- 1) p)) = 11
      \<and> currentYear (snd (navigateMonth (- 1) p)) = currentYear p - 1)
   \<and> (0 \<le> currentMonth p \<and> currentMonth p < 11 \<longrightarrow>
      currentMonth (snd (navigateMonth 1 p)) = currentMonth p + 1
      \<and> currentYear (snd (navigateMonth 1 p)) = currentYear p)
   \<and> (0 < currentMonth p \<and> currentMonth p \<le> 11 \<longrightarrow>
      currentMonth (snd (navigateMonth (- 1) p)) = currentMonth p - 1
      \<and> currentYear (snd (navigateMonth (- 1) p)) = currentYear p)"
  by (simp add: navigateMonth_month_year)

theorem navigateMonth_transitions_witness:
  "currentMonth (empty_page\<lparr>currentMonth := 11\<rparr>) = 11
   \<and> currentMonth (snd (navigateMonth 1 (empty_page\<lparr>currentMonth := 11\<rparr>))) = 0
   \<and> currentYear (snd (navigateMonth 1 (empty_page\<lparr>currentMonth := 11\<rparr>))) = 2025
   \<and> currentMonth empty_page = 0
   \<and> currentMonth (snd (navigateMonth (- 1) empty_page)) = 11
   \<and> currentYear (snd (navigateMonth (- 1) empty_page)) = 2023
   \<and> currentMonth (snd (navigateMonth 1 empty_page)) = 1
   \<and> currentYear (snd (navigateMonth 1 empty_page)) = 2024
   \<and> currentMonth (snd (navigateMonth (- 1) (empty_page\<lparr>currentMonth := 11\<rparr>))) = 10
   \<and> currentYear (snd (navigateMonth (- 1) (empty_page\<lparr>currentMonth := 11\<rparr>))) = 2024"
proof -
  have m: "currentMonth (empty_page\<lparr>currentMonth := 11\<rparr>) = 11" "currentMonth empty_page = 0"
    and y: "currentYear (empty_page\<lparr>currentMonth := 11\<rparr>) = 2024" "currentYear empty_page = 2024"
    by (simp_all add: empty_page_def)
  show ?thesis
    using navigateMonth_transitions [of "empty_page\<lparr>currentMonth := 11\<rparr>"]
      navigateMonth_transitions [of empty_page]
    unfolding m y by simp
qed

section \<open>Hex colours\<close>

text \<open>
  The two forms of a colour text: three or six hexadecimal digits, with or without a
  leading \<^verbatim>\<open>#\<close>.
\<close>

definition is_hex_string :: "nat \<Rightarrow> string \<Rightarrow> bool" where
  "is_hex_string n t = (length t = n \<and> list_all is_hex t)"

definition hex_form :: "nat \<Rightarrow> string \<Rightarrow> bool" where
  "hex_form n s = (is_hex_string n s \<or> (s \<noteq> [] \<and> hd s = CHR ''#'' \<and> is_hex_string n (tl s)))"

lemma not_hex_hash: "\<not> is_hex CHR ''#''"
  by (simp add: is_hex_def hex_val_def code_def)

lemma strip_hash_hex: "is_hex r \<Longrightarrow> strip_hash (r # cs) = r # cs"
  using not_hex_hash by (auto simp: strip_hash_def)

lemma strip_hash_hash: "strip_hash (CHR ''#'' # cs) = cs"
  by (simp add: strip_hash_def)

lemma match_shorthand_hex:
  assumes "is_hex r" "is_hex g" "is_hex b"
  shows "match_shorthand [r, g, b] = Some (r, g, b)"
    and "match_shorthand (CHR ''#'' # [r, g, b]) = Some (r, g, b)"
  using assms by (simp_all add: match_shorthand_def strip_hash_hex strip_hash_hash)

lemma match_full_hex:
  assumes "is_hex r1" "is_hex r2" "is_hex g1" "is_hex g2" "is_hex b1" "is_hex b2"
  shows "match_full [r1, r2, g1, g2, b1, b2] = Some ([r1, r2], [g1, g2], [b1, b2])"
    and "match_full (CHR ''#'' # [r1, r2, g1, g2, b1, b2]) = Some ([r1, r2], [g1, g2], [b1, b2])"
  using assms by (simp_all add: match_full_def strip_hash_hex strip_hash_hash)

lemma match_shorthand_six:
  "match_shorthand [r1, r2, g1, g2, b1, b2] = None"
  "match_shorthand (CHR ''#'' # [r1, r2, g1, g2, b1, b2]) = None"
  by (simp_all add: match_shorthand_def strip_hash_def)

lemma match_shorthand_form: "match_shorthand s \<noteq> None \<Longrightarrow> hex_form 3 s"
  by (cases s)
     (auto simp: match_shorthand_def strip_hash_def hex_form_def is_hex_string_def
           split: list.splits if_splits)

lemma match_full_form: "match_full s \<noteq> None \<Longrightarrow> hex_form 6 s"
  by (cases s)
     (auto simp: match_full_def strip_hash_def hex_form_def is_hex_string_def
           split: list.splits if_splits)

definition rgb_text :: "nat \<Rightarrow> nat \<Rightarrow> nat \<Rightarrow> string" where
  "rgb_text r g b = show_nat r @ '', '' @ show_nat g @ '', '' @ show_nat b"

lemma hexToRgb_six:
  assumes "is_hex r1" "is_hex r2" "is_hex g1" "is_hex g2" "is_hex b1" "is_hex b2"
  shows "hexToRgb [r1, r2, g1, g2, b1, b2]
           = rgb_text (parseInt16 [r1, r2]) (parseInt16 [g1, g2]) (parseInt16 [b1, b2])"
    and "hexToRgb (CHR ''#'' # [r1, r2, g1, g2, b1, b2])
           = rgb_text (parseInt16 [r1, r2]) (parseInt16 [g1, g2]) (parseInt16 [b1, b2])"
  by (simp_all only: hexToRgb_def match_shorthand_six option.case Let_def match_full_hex [OF assms]
        prod.case rgb_text_def)

lemma hexToRgb_three:
  assumes "is_hex r" "is_hex g" "is_hex b"
  shows "hexToRgb [r, g, b] = rgb_text (parseInt16 [r, r]) (parseInt16 [g, g]) (parseInt16 [b, b])"
    and "hexToRgb (CHR ''#'' # [r, g, b])
           = rgb_text (parseInt16 [r, r]) (parseInt16 [g, g]) (parseInt16 [b, b])"
  by (simp_all only: hexToRgb_def match_shorthand_hex [OF assms] option.case Let_def prod.case
        match_full_hex(1) [OF assms(1) assms(1) assms(2) assms(2) assms(3) assms(3)] rgb_text_def)

text \<open>
  C8. For hexadecimal digits \<open>r\<close>, \<open>g\<close>, \<open>b\<close> the shorthand \<open>rgb\<close> and the full form
  \<open>rrggbb\<close> give the same text \<^verbatim>\<open>R, G, B\<close>, with or without the leading \<^verbatim>\<open>#\<close>, each
  component being seventeen times its digit; in particular \<^verbatim>\<open>#03F\<close> and \<^verbatim>\<open>#0033FF\<close> both
  give \<^verbatim>\<open>0, 51, 255\<close>. A text of neither form gives the default \<^verbatim>\<open>253, 224, 71\<close>.
\<close>

theorem hexToRgb_shorthand:
  "(is_hex r \<and> is_hex g \<and> is_hex b \<longrightarrow>
      hexToRgb [r, g, b] = hexToRgb [r, r, g, g, b, b]
      \<and> hexToRgb (CHR ''#'' # [r, g, b]) = hexToRgb (CHR ''#'' # [r, r, g, g, b, b])
      \<and> hexToRgb (CHR ''#'' # [r, g, b]) = hexToRgb [r, g, b]
      \<and> hexToRgb [r, g, b]
           = rgb_text (17 * the (hex_val r)) (17 * the (hex_val g)) (17 * the (hex_val b)))
   \<and> hexToRgb ''#03F'' = ''0, 51, 255'' \<and> hexToRgb ''#0033FF'' = ''0, 51, 255''
   \<and> hexToRgb ''03F'' = ''0, 51, 255'' \<and> hexToRgb ''0033FF'' = ''0, 51, 255''
   \<and> (\<not> hex_form 3 s \<and> \<not> hex_form 6 s \<longrightarrow> hexToRgb s = ''253, 224, 71'')"
proof (intro conjI impI)
  assume h: "is_hex r \<and> is_hex g \<and> is_hex b"
  then have r: "is_hex r" and g: "is_hex g" and b: "is_hex b" by simp_all
  note three = hexToRgb_three [OF r g b]
  note six = hexToRgb_six [OF r r g g b b]
  show "hexToRgb [r, g, b] = hexToRgb [r, r, g, g, b, b]"
    by (simp only: three six)
  show "hexToRgb (CHR ''#'' # [r, g, b]) = hexToRgb (CHR ''#'' # [r, r, g, g, b, b])"
    by (simp only: three six)
  show "hexToRgb (CHR ''#'' # [r, g, b]) = hexToRgb [r, g, b]"
    by (simp only: three)
  have p: "parseInt16 [c, c] = 17 * the (hex_val c)" if "is_hex c" for c
    using that by (auto simp: parseInt16_def is_hex_def)
  show "hexToRgb [r, g, b]
      = rgb_text (17 * the (hex_val r)) (17 * the (hex_val g)) (17 * the (hex_val b))"
    by (simp only: three p [OF r] p [OF g] p [OF b])
next
  show "hexToRgb ''#03F'' = ''0, 51, 255''" by code_simp
  show "hexToRgb ''#0033FF'' = ''0, 51, 255''" by code_simp
  show "hexToRgb ''03F'' = ''0, 51, 255''" by code_simp
  show "hexToRgb ''0033FF'' = ''0, 51, 255''" by code_simp
next
  assume n: "\<not> hex_form 3 s \<and> \<not> hex_form 6 s"
  then have s3: "match_shorthand s = None"
    using match_shorthand_form [of s] by blast
  from n have s6: "match_full s = None"
    using match_full_form [of s] by blast
  show "hexToRgb s = ''253, 224, 71''"
    by (simp add: hexToRgb_def s3 s6)
qed

theorem hexToRgb_shorthand_witness:
  "is_hex CHR ''a'' \<and> is_hex CHR ''7'' \<and> is_hex CHR ''E''
   \<and> hexToRgb ''a7E'' = hexToRgb ''aa77EE''
   \<and> hexToRgb ''#a7E'' = hexToRgb ''#aa77EE''
   \<and> hexToRgb ''a7E'' = ''170, 119, 238''
   \<and> \<not> hex_form 3 ''#12'' \<and> \<not> hex_form 6 ''#12''
   \<and> hexToRgb ''#12'' = ''253, 224, 71''
   \<and> \<not> hex_form 3 ''#ggg'' \<and> \<not> hex_form 6 ''#ggg''
   \<and> hexToRgb ''#ggg'' = ''253, 224, 71''"
proof -
  have h: "is_hex CHR ''a'' \<and> is_hex CHR ''7'' \<and> is_hex CHR ''E''"
    by code_simp
  have n1: "\<not> hex_form 3 ''#12'' \<and> \<not> hex_form 6 ''#12''"
    by code_simp
  have n2: "\<not> hex_form 3 ''#ggg'' \<and> \<not> hex_form 6 ''#ggg''"
    by code_simp
  have v: "rgb_text (17 * the (hex_val CHR ''a'')) (17 * the (hex_val CHR ''7''))
             (17 * the (hex_val CHR ''E'')) = ''170, 119, 238''"
    by code_simp
  from hexToRgb_shorthand [of "CHR ''a''" "CHR ''7''" "CHR ''E''" "''#12''"] h n1
  have a: "hexToRgb ''a7E'' = hexToRgb ''aa77EE''"
    "hexToRgb ''#a7E'' = hexToRgb ''#aa77EE''"
    "hexToRgb ''a7E'' = ''170, 119, 238''"
    "hexToRgb ''#12'' = ''253, 224, 71''"
    unfolding v by blast+
  from hexToRgb_shorthand [of "CHR ''a''" "CHR ''7''" "CHR ''E''" "''#ggg''"] n2
  have c: "hexToRgb ''#ggg'' = ''253, 224, 71''"
    by blast
  show ?thesis
    using h n1 n2 a c by blast
qed

section \<open>Calendar notes per month\<close>

subsection \<open>Storage keys of different months differ\<close>

lemma code_digit_char: "d < 10 \<Longrightarrow> code (digit_char d) = 48 + d"
  by (simp add: code_def digit_char_def)

lemma is_digit_digit_char: "d < 10 \<Longrightarrow> is_digit (digit_char d)"
  by (simp add: is_digit_def code_digit_char)

lemma show_nat_digits: "list_all is_digit (show_nat n) \<and> show_nat n \<noteq> []"
proof (induction n rule: show_nat.induct)
  case (1 n)
  show ?case
  proof (cases "n < 10")
    case True
    then show ?thesis
      by (subst (1 2) show_nat.simps) (simp add: is_digit_digit_char)
  next
    case False
    with 1 show ?thesis
      by (subst (1 2) show_nat.simps) (simp add: is_digit_digit_char)
  qed
qed

lemma read_nat_snoc: "read_nat (s @ [c]) = 10 * read_nat s + (int (code c) - 48)"
  by (simp add: read_nat_def)

lemma read_nat_show_nat: "read_nat (show_nat n) = int n"
proof (induction n rule: show_nat.induct)
  case (1 n)
  show ?case
  proof (cases "n < 10")
    case True
    then show ?thesis
      by (subst show_nat.simps) (simp add: read_nat_def code_digit_char)
  next
    case False
    then have "read_nat (show_nat n) = 10 * read_nat (show_nat (n div 10))
        + (int (code (digit_char (n mod 10))) - 48)"
      by (subst show_nat.simps) (simp add: read_nat_snoc)
    also have "\<dots> = 10 * int (n div 10) + int (n mod 10)"
      using 1 False by (simp add: code_digit_char)
    also have "\<dots> = int n"
      by presburger
    finally show ?thesis .
  qed
qed

lemma show_nat_inj:
  assumes "show_nat n = show_nat m"
  shows "n = m"
proof -
  have "int n = read_nat (show_nat n)" by (simp only: read_nat_show_nat)
  also have "\<dots> = read_nat (show_nat m)" by (simp only: assms)
  also have "\<dots> = int m" by (simp only: read_nat_show_nat)
  finally show ?thesis by simp
qed

lemma minus_not_digit: "\<not> is_digit CHR ''-''"
  by (simp add: is_digit_def code_def)

lemma show_nat_no_minus: "hd (show_nat n) \<noteq> CHR ''-''"
  using show_nat_digits [of n] minus_not_digit by (cases "show_nat n") auto

lemma show_int_inj: "show_int i = show_int j \<Longrightarrow> i = j"
proof -
  assume a: "show_int i = show_int j"
  have ne: "CHR ''-'' # show_nat a \<noteq> show_nat b" for a b
    using show_nat_no_minus [of b] by (cases "show_nat b") auto
  show ?thesis
  proof (cases "i < 0")
    case True
    with a ne [of "nat (- i)" "nat j"] have j: "j < 0"
      by (auto simp: show_int_def split: if_splits)
    with a True have "nat (- i) = nat (- j)"
      by (simp add: show_int_def show_nat_inj)
    with True j show ?thesis by simp
  next
    case False
    with a ne [of "nat (- j)" "nat i"] have j: "\<not> j < 0"
      by (auto simp: show_int_def split: if_splits)
    with a False have "nat i = nat j"
      by (simp add: show_int_def show_nat_inj)
    with False j show ?thesis by simp
  qed
qed

text \<open>Reading an integer back from the front of a text: an optional minus sign, then
  the longest run of digits.\<close>

definition split_int :: "string \<Rightarrow> string \<times> string" where
  "split_int s =
     (case s of
        [] \<Rightarrow> ([], [])
      | c # cs \<Rightarrow>
          if c = CHR ''-'' then (c # takeWhile is_digit cs, dropWhile is_digit cs)
          else (takeWhile is_digit s, dropWhile is_digit s))"

lemma takeWhile_digits:
  "list_all is_digit ds \<Longrightarrow> takeWhile is_digit (ds @ CHR ''-'' # rest) = ds
     \<and> dropWhile is_digit (ds @ CHR ''-'' # rest) = CHR ''-'' # rest"
  by (induction ds) (simp_all add: minus_not_digit)

lemma split_int_show_int:
  "split_int (show_int i @ CHR ''-'' # rest) = (show_int i, CHR ''-'' # rest)"
proof (cases "i < 0")
  case True
  then show ?thesis
    using show_nat_digits [of "nat (- i)"]
    by (simp add: split_int_def show_int_def takeWhile_digits)
next
  case False
  obtain c cs where s: "show_nat (nat i) = c # cs"
    using show_nat_digits [of "nat i"] by (cases "show_nat (nat i)") auto
  with show_nat_no_minus [of "nat i"] have c: "c \<noteq> CHR ''-''" by simp
  have "split_int (show_nat (nat i) @ CHR ''-'' # rest) = (show_nat (nat i), CHR ''-'' # rest)"
    using takeWhile_digits [of "show_nat (nat i)" rest] show_nat_digits [of "nat i"] c
    unfolding s by (simp add: split_int_def)
  with False show ?thesis by (simp add: show_int_def)
qed

lemma getCalendarStorageKey_inj:
  "getCalendarStorageKey y m = getCalendarStorageKey y' m' \<longleftrightarrow> y = y' \<and> m = m'"
proof
  assume "getCalendarStorageKey y m = getCalendarStorageKey y' m'"
  then have e: "show_int y @ CHR ''-'' # show_int m = show_int y' @ CHR ''-'' # show_int m'"
    by (simp add: getCalendarStorageKey_def)
  then have "split_int (show_int y @ CHR ''-'' # show_int m)
      = split_int (show_int y' @ CHR ''-'' # show_int m')"
    by simp
  then have "show_int y = show_int y'" "show_int m = show_int m'"
    by (simp_all add: split_int_show_int)
  then show "y = y' \<and> m = m'"
    by (simp add: show_int_inj)
qed simp

subsection \<open>The grid on display and its note map\<close>

text \<open>
  The grid on display belongs to the current month: whenever a day cell (hence a text
  area with its listener) exists, the calendar anchors exist and the storage key the
  listeners write to is the key of the current (year, month) pair.
\<close>

fun is_day :: "cell \<Rightarrow> bool" where
  "is_day EmptyDay = False"
| "is_day (Day i t v) = True"

definition calendar_anchors :: "page \<Rightarrow> bool" where
  "calendar_anchors p = (''month-year'' \<in> elements p \<and> ''calendar-body'' \<in> elements p)"

definition calendar_shown :: "page \<Rightarrow> bool" where
  "calendar_shown p =
     (list_ex is_day (cells p) \<longrightarrow>
        calendar_anchors p
        \<and> cal_key p = getCalendarStorageKey (currentYear p) (currentMonth p))"

lemma has_day_is_day: "has_day i cs \<Longrightarrow> list_ex is_day cs"
  by (induction i cs rule: has_day.induct) auto

lemma set_day_is_day: "list_ex is_day (set_day i v cs) = list_ex is_day cs"
  by (induction i v cs rule: set_day.induct) auto

text \<open>\<^verbatim>\<open>generateCalendar\<close> when both anchors exist: the old cells are dropped, the
  heading is set, and the note map is parsed from what storage holds under the key of
  the current pair.\<close>

lemma generateCalendar_anchors:
  assumes "calendar_anchors p"
  shows "generateCalendar p =
    (let p4 = set_prop ''month-year'' ''textContent''
                (month_name (currentMonth p) @ '' '' @ show_int (currentYear p)) (p\<lparr>cells := []\<rparr>);
         k = getCalendarStorageKey (currentYear p) (currentMonth p)
     in case JSON_parse (item_or p k ''{}'') of
          Inl e \<Rightarrow> (Threw e, p4)
        | Inr savedNotes \<Rightarrow>
            (let r = fill_days savedNotes
                       (\<lambda>i. i = today_date p \<and> currentMonth p = today_month p
                             \<and> currentYear p = today_year p)
                       [1..daysInMonth (currentYear p) (currentMonth p)]
                       (replicate (nat (firstDayOfMonth (currentYear p) (currentMonth p))) EmptyDay)
             in (fst r, p4\<lparr>cal_key := k, cal_notes := savedNotes, cells := snd r\<rparr>)))"
proof -
  show ?thesis
  proof (cases "JSON_parse (item_or p (getCalendarStorageKey (currentYear p) (currentMonth p)) ''{}'')")
    case (Inl e)
    with assms show ?thesis
      by (simp add: generateCalendar_def calendar_anchors_def getElement_def Let_def
                    item_or_def set_prop_def)
  next
    case (Inr savedNotes)
    with assms show ?thesis
      by (simp add: generateCalendar_def calendar_anchors_def getElement_def Let_def
                    item_or_def set_prop_def split_beta)
  qed
qed

lemma generateCalendar_no_anchors:
  "\<not> calendar_anchors p \<Longrightarrow> generateCalendar p = (Done, p)"
  by (auto simp: generateCalendar_def calendar_anchors_def getElement_def)

lemma generateCalendar_elements: "elements (snd (generateCalendar p)) = elements p"
  by (cases "calendar_anchors p")
     (simp_all add: generateCalendar_anchors generateCalendar_no_anchors Let_def set_prop_def
               split: sum.splits)

lemma generateCalendar_storage: "storage (snd (generateCalendar p)) = storage p"
  by (cases "calendar_anchors p")
     (simp_all add: generateCalendar_anchors generateCalendar_no_anchors Let_def set_prop_def
               split: sum.splits)

lemma generateCalendar_shown:
  assumes "calendar_shown p"
  shows "calendar_shown (snd (generateCalendar p))"
proof (cases "calendar_anchors p")
  case True
  then show ?thesis
    by (simp add: generateCalendar_anchors Let_def calendar_shown_def calendar_anchors_def
                  set_prop_def
             split: sum.splits)
next
  case False
  with assms show ?thesis by (simp add: generateCalendar_no_anchors)
qed

lemma navigateMonth_shown:
  assumes "calendar_shown p"
  shows "calendar_shown (snd (navigateMonth d p))"
proof -
  define p2 where "p2 =
    (let p1 = p\<lparr>currentMonth := currentMonth p + d\<rparr>
     in if currentMonth p1 < 0
        then p1\<lparr>currentMonth := 11, currentYear := currentYear p1 - 1\<rparr>
        else if currentMonth p1 > 11
        then p1\<lparr>currentMonth := 0, currentYear := currentYear p1 + 1\<rparr>
        else p1)"
  have n: "navigateMonth d p = generateCalendar p2"
    by (simp add: navigateMonth_def p2_def Let_def)
  have a: "calendar_anchors p2 = calendar_anchors p" and c: "cells p2 = cells p"
    by (simp_all add: p2_def calendar_anchors_def Let_def)
  show ?thesis
  proof (cases "calendar_anchors p")
    case True
    with a show ?thesis
      unfolding n
      by (simp add: generateCalendar_anchors Let_def calendar_shown_def calendar_anchors_def
                    set_prop_def
               split: sum.splits)
  next
    case False
    with assms have "\<not> list_ex is_day (cells p)"
      by (auto simp: calendar_shown_def)
    with c have "calendar_shown p2"
      by (simp add: calendar_shown_def)
    with False a show ?thesis
      unfolding n by (simp add: generateCalendar_no_anchors)
  qed
qed

lemma dayInput_shown:
  assumes "calendar_shown p"
  shows "calendar_shown (snd (dayInput i v p))"
  using assms
  by (auto simp: dayInput_def calendar_shown_def calendar_anchors_def Let_def set_day_is_day
           split: sum.splits)

lemma dayInput_storage:
  assumes "k \<noteq> cal_key p"
  shows "storage (snd (dayInput i v p)) k = storage p k"
  using assms by (auto simp: dayInput_def Let_def split: sum.splits)

lemma dayInput_no_day: "\<not> has_day i (cells p) \<Longrightarrow> dayInput i v p = (Done, p)"
  by (simp add: dayInput_def)

text \<open>The note map after \<^verbatim>\<open>navigateMonth\<close>, read off the page it started from.\<close>

lemma navigateMonth_loads:
  assumes "calendar_anchors p"
  shows "let p' = snd (navigateMonth d p);
             k' = getCalendarStorageKey (currentYear p') (currentMonth p')
         in case JSON_parse (item_or p k' ''{}'') of
              Inl e \<Rightarrow> fst (navigateMonth d p) = Threw e \<and> cells p' = []
            | Inr savedNotes \<Rightarrow> cal_key p' = k' \<and> cal_notes p' = savedNotes"
proof -
  define p2 where "p2 =
    (let p1 = p\<lparr>currentMonth := currentMonth p + d\<rparr>
     in if currentMonth p1 < 0
        then p1\<lparr>currentMonth := 11, currentYear := currentYear p1 - 1\<rparr>
        else if currentMonth p1 > 11
        then p1\<lparr>currentMonth := 0, currentYear := currentYear p1 + 1\<rparr>
        else p1)"
  have n: "navigateMonth d p = generateCalendar p2"
    by (simp add: navigateMonth_def p2_def Let_def)
  have a: "calendar_anchors p2"
    using assms by (simp add: p2_def calendar_anchors_def Let_def)
  have io: "item_or p2 k x = item_or p k x" for k x
    by (simp add: p2_def item_or_def Let_def)
  have my: "currentMonth (snd (generateCalendar p2)) = currentMonth p2"
           "currentYear (snd (generateCalendar p2)) = currentYear p2"
    using generateCalendar_month_year [of p2] by simp_all
  show ?thesis
    unfolding n Let_def my
    by (simp add: generateCalendar_anchors [OF a] Let_def io set_prop_def split: sum.splits)
qed

lemma dayInput_frame:
  "elements (snd (dayInput i v p)) = elements p"
  "currentYear (snd (dayInput i v p)) = currentYear p"
  "currentMonth (snd (dayInput i v p)) = currentMonth p"
  by (auto simp: dayInput_def Let_def split: sum.splits)

lemma dayInput_other_month:
  assumes "calendar_shown p"
    and "(y', m') \<noteq> (currentYear p, currentMonth p)"
  shows "storage (snd (dayInput i v p)) (getCalendarStorageKey y' m')
           = storage p (getCalendarStorageKey y' m')"
proof (cases "has_day i (cells p)")
  case True
  then have "cal_key p = getCalendarStorageKey (currentYear p) (currentMonth p)"
    using assms(1) has_day_is_day by (auto simp: calendar_shown_def)
  with assms(2) have "getCalendarStorageKey y' m' \<noteq> cal_key p"
    by (simp add: getCalendarStorageKey_inj)
  then show ?thesis by (rule dayInput_storage)
next
  case False
  then show ?thesis by (simp add: dayInput_no_day)
qed

text \<open>
  C6. Different (year, month) pairs have different storage keys. On a page whose grid
  belongs to the current month (\<open>calendar_shown\<close>, which generating the grid, changing
  month and typing a note all preserve), typing a note leaves what is stored under the
  key of every other pair as it was. After \<^verbatim>\<open>navigateMonth\<close> the note map in use is the
  one parsed from what storage holds under the key of the new pair (when that text does
  not parse, the listener throws and no cell is left): the previous map is not reused.
  So a note typed under one pair and followed by a change to another pair is not in the
  map of that pair, which is parsed from what its key held before the note was typed.
\<close>

theorem calendar_notes_isolated:
  assumes "calendar_shown p"
  shows "(getCalendarStorageKey y m = getCalendarStorageKey y' m' \<longleftrightarrow> y = y' \<and> m = m')
    \<and> ((y', m') \<noteq> (currentYear p, currentMonth p) \<longrightarrow>
          storage (snd (dayInput i v p)) (getCalendarStorageKey y' m')
            = storage p (getCalendarStorageKey y' m'))
    \<and> calendar_shown (snd (dayInput i v p))
    \<and> calendar_shown (snd (navigateMonth d p))
    \<and> calendar_shown (snd (generateCalendar p))
    \<and> (calendar_anchors p \<longrightarrow>
          (let p' = snd (navigateMonth d p);
               k' = getCalendarStorageKey (currentYear p') (currentMonth p')
           in case JSON_parse (item_or p k' ''{}'') of
                Inl e \<Rightarrow> fst (navigateMonth d p) = Threw e \<and> cells p' = []
              | Inr savedNotes \<Rightarrow> cal_key p' = k' \<and> cal_notes p' = savedNotes))
    \<and> (calendar_anchors p \<longrightarrow>
          (let p1 = snd (dayInput i v p);
               p2 = snd (navigateMonth d p1);
               k2 = getCalendarStorageKey (currentYear p2) (currentMonth p2)
           in (currentYear p2, currentMonth p2) \<noteq> (currentYear p, currentMonth p) \<longrightarrow>
                (case JSON_parse (item_or p k2 ''{}'') of
                   Inl e \<Rightarrow> fst (navigateMonth d p1) = Threw e \<and> cells p2 = []
                 | Inr savedNotes \<Rightarrow> cal_key p2 = k2 \<and> cal_notes p2 = savedNotes)))"
proof (intro conjI impI)
  show "getCalendarStorageKey y m = getCalendarStorageKey y' m' \<longleftrightarrow> y = y' \<and> m = m'"
    by (rule getCalendarStorageKey_inj)
next
  assume "(y', m') \<noteq> (currentYear p, currentMonth p)"
  then show "storage (snd (dayInput i v p)) (getCalendarStorageKey y' m')
      = storage p (getCalendarStorageKey y' m')"
    by (rule dayInput_other_month [OF assms])
next
  show "calendar_shown (snd (dayInput i v p))"
    by (rule dayInput_shown [OF assms])
  show "calendar_shown (snd (navigateMonth d p))"
    by (rule navigateMonth_shown [OF assms])
  show "calendar_shown (snd (generateCalendar p))"
    by (rule generateCalendar_shown [OF assms])
next
  assume "calendar_anchors p"
  then show "let p' = snd (navigateMonth d p);
                 k' = getCalendarStorageKey (currentYear p') (currentMonth p')
             in case JSON_parse (item_or p k' ''{}'') of
                  Inl e \<Rightarrow> fst (navigateMonth d p) = Threw e \<and> cells p' = []
                | Inr savedNotes \<Rightarrow> cal_key p' = k' \<and> cal_notes p' = savedNotes"
    by (rule navigateMonth_loads)
next
  assume a: "calendar_anchors p"
  define p1 where "p1 = snd (dayInput i v p)"
  define p2 where "p2 = snd (navigateMonth d p1)"
  define k2 where "k2 = getCalendarStorageKey (currentYear p2) (currentMonth p2)"
  have a1: "calendar_anchors p1"
    using a by (simp add: p1_def calendar_anchors_def dayInput_frame)
  have loads: "case JSON_parse (item_or p1 k2 ''{}'') of
                 Inl e \<Rightarrow> fst (navigateMonth d p1) = Threw e \<and> cells p2 = []
               | Inr savedNotes \<Rightarrow> cal_key p2 = k2 \<and> cal_notes p2 = savedNotes"
    using navigateMonth_loads [OF a1, of d] unfolding Let_def p2_def k2_def .
  have "(currentYear p2, currentMonth p2) \<noteq> (currentYear p, currentMonth p) \<longrightarrow>
          (case JSON_parse (item_or p k2 ''{}'') of
             Inl e \<Rightarrow> fst (navigateMonth d p1) = Threw e \<and> cells p2 = []
           | Inr savedNotes \<Rightarrow> cal_key p2 = k2 \<and> cal_notes p2 = savedNotes)"
  proof
    assume "(currentYear p2, currentMonth p2) \<noteq> (currentYear p, currentMonth p)"
    then have "storage p1 k2 = storage p k2"
      unfolding p1_def k2_def by (rule dayInput_other_month [OF assms])
    then have "item_or p1 k2 ''{}'' = item_or p k2 ''{}''"
      by (simp add: item_or_def)
    with loads show "case JSON_parse (item_or p k2 ''{}'') of
             Inl e \<Rightarrow> fst (navigateMonth d p1) = Threw e \<and> cells p2 = []
           | Inr savedNotes \<Rightarrow> cal_key p2 = k2 \<and> cal_notes p2 = savedNotes"
      by simp
  qed
  then show "let p1 = snd (dayInput i v p);
                 p2 = snd (navigateMonth d p1);
                 k2 = getCalendarStorageKey (currentYear p2) (currentMonth p2)
             in (currentYear p2, currentMonth p2) \<noteq> (currentYear p, currentMonth p) \<longrightarrow>
                  (case JSON_parse (item_or p k2 ''{}'') of
                     Inl e \<Rightarrow> fst (navigateMonth d p1) = Threw e \<and> cells p2 = []
                   | Inr savedNotes \<Rightarrow> cal_key p2 = k2 \<and> cal_notes p2 = savedNotes)"
    unfolding Let_def p1_def p2_def k2_def .
qed

text \<open>A page with the calendar anchors, showing January 2024 with nothing stored, and
  the same page after its grid has been generated.\<close>

definition calendar_page :: page where
  "calendar_page = empty_page\<lparr>elements := {''month-year'', ''calendar-body''}\<rparr>"

definition january_page :: page where
  "january_page = snd (generateCalendar calendar_page)"

theorem calendar_notes_isolated_witness:
  "calendar_shown calendar_page
   \<and> calendar_shown january_page
   \<and> calendar_anchors january_page
   \<and> cal_key january_page = ''calendarNotes-2024-0''
   \<and> storage (snd (dayInput 5 ''dentist'' january_page)) ''calendarNotes-2024-0''
        = Some ''{\"5\":\"dentist\"}''
   \<and> storage (snd (dayInput 5 ''dentist'' january_page)) (getCalendarStorageKey 2024 1)
        = storage january_page (getCalendarStorageKey 2024 1)
   \<and> storage january_page (getCalendarStorageKey 2024 1) = None
   \<and> calendar_shown (snd (dayInput 5 ''dentist'' january_page))
   \<and> cal_notes (snd (navigateMonth 1 january_page)) = JObject []
   \<and> cal_key (snd (navigateMonth 1 (snd (dayInput 5 ''dentist'' january_page))))
        = getCalendarStorageKey 2024 1
   \<and> cal_notes (snd (navigateMonth 1 (snd (dayInput 5 ''dentist'' january_page)))) = JObject []"
proof -
  let ?w = "snd (dayInput 5 ''dentist'' january_page)"
  have s0: "calendar_shown calendar_page"
    by (simp add: calendar_shown_def calendar_page_def empty_page_def)
  have s1: "calendar_shown january_page"
    unfolding january_page_def
    using calendar_notes_isolated [OF s0, of 0 0 0 0 0 "[]" 0] by blast
  have an: "calendar_anchors january_page"
    unfolding january_page_def
    by (simp add: calendar_anchors_def generateCalendar_elements calendar_page_def)
  have my: "currentYear january_page = 2024" "currentMonth january_page = 0"
    unfolding january_page_def
    by (simp_all add: generateCalendar_month_year calendar_page_def empty_page_def)
  have ne: "(2024, 1) \<noteq> (currentYear january_page, currentMonth january_page)"
    unfolding my by simp
  have k: "cal_key january_page = ''calendarNotes-2024-0''"
    unfolding january_page_def calendar_page_def by code_simp
  have w: "storage ?w ''calendarNotes-2024-0'' = Some ''{\"5\":\"dentist\"}''"
    unfolding january_page_def calendar_page_def by code_simp
  have n: "storage january_page (getCalendarStorageKey 2024 1) = None"
    unfolding january_page_def
    by (simp add: generateCalendar_storage calendar_page_def empty_page_def)
  have io: "item_or january_page (getCalendarStorageKey 2024 1) ''{}'' = ''{}''"
    by (simp add: item_or_def n)
  have pe: "JSON_parse ''{}'' = Inr (JObject [])"
    by code_simp
  have nm: "currentYear (snd (navigateMonth 1 january_page)) = 2024"
    "currentMonth (snd (navigateMonth 1 january_page)) = 1"
    by (simp_all add: navigateMonth_month_year my)
  have nw: "currentYear (snd (navigateMonth 1 ?w)) = 2024"
    "currentMonth (snd (navigateMonth 1 ?w)) = 1"
    by (simp_all add: navigateMonth_month_year dayInput_frame my)
  note t = calendar_notes_isolated [OF s1, of 0 0 2024 1 5 "''dentist''" 1]
  from t ne have f: "storage ?w (getCalendarStorageKey 2024 1)
      = storage january_page (getCalendarStorageKey 2024 1)"
    by blast
  from t have s2: "calendar_shown ?w"
    by blast
  from t an have "let p' = snd (navigateMonth 1 january_page);
             k' = getCalendarStorageKey (currentYear p') (currentMonth p')
         in case JSON_parse (item_or january_page k' ''{}'') of
              Inl e \<Rightarrow> fst (navigateMonth 1 january_page) = Threw e \<and> cells p' = []
            | Inr savedNotes \<Rightarrow> cal_key p' = k' \<and> cal_notes p' = savedNotes"
    by blast
  then have l1: "cal_notes (snd (navigateMonth 1 january_page)) = JObject []"
    unfolding Let_def nm io pe by simp
  from t an have "let p1 = ?w; p2 = snd (navigateMonth 1 p1);
               k2 = getCalendarStorageKey (currentYear p2) (currentMonth p2)
           in (currentYear p2, currentMonth p2)
                \<noteq> (currentYear january_page, currentMonth january_page) \<longrightarrow>
                (case JSON_parse (item_or january_page k2 ''{}'') of
                   Inl e \<Rightarrow> fst (navigateMonth 1 p1) = Threw e \<and> cells p2 = []
                 | Inr savedNotes \<Rightarrow> cal_key p2 = k2 \<and> cal_notes p2 = savedNotes)"
    by blast
  then have l2: "cal_key (snd (navigateMonth 1 ?w)) = getCalendarStorageKey 2024 1
      \<and> cal_notes (snd (navigateMonth 1 ?w)) = JObject []"
    unfolding Let_def nw my io pe by simp
  show ?thesis
    using s0 s1 an k w f n s2 l1 l2 by blast
qed

section \<open>Initialisation without anchors\<close>

text \<open>
  C2, as the script has it. A widget whose initialisation is guarded by its anchors
  (sidebar, wallpaper, notepad, password gate, keypad, checklist, calendar grid, month
  buttons) leaves the whole page as it was when an anchor is missing: nothing is
  stored, nothing in the document changes, no listener or timer is registered, nothing
  is thrown. The theme selector is not guarded: without its picker it registers no
  listener, but it still sets the two colour variables of the document root and writes
  the colour (the stored one, or the default) to storage. The clock has no required
  anchor: without its elements it changes nothing in the document but starts its timer.
\<close>

theorem init_without_anchors:
  "((''hamburger-menu'' \<notin> elements p \<or> ''sidebar'' \<notin> elements p) \<longrightarrow> initSidebarToggle p = p)
   \<and> ((''toggle-wallpaper-btn'' \<notin> elements p \<or> \<not> video_container p) \<longrightarrow>
          initWallpaperToggle p = p)
   \<and> (''notepad'' \<notin> elements p \<longrightarrow> initTextBoxStorage p = p)
   \<and> (''passwordInput'' \<notin> elements p \<longrightarrow> initPasswordProtection p = p)
   \<and> ((''keyboard'' \<notin> elements p \<or> ''passwordInput'' \<notin> elements p) \<longrightarrow>
          initKeyboardInput p = p)
   \<and> ((''inputBox'' \<notin> elements p \<or> ''checklist'' \<notin> elements p) \<longrightarrow>
          initChecklist p = (Done, p))
   \<and> ((''month-year'' \<notin> elements p \<or> ''calendar-body'' \<notin> elements p) \<longrightarrow>
          generateCalendar p = (Done, p))
   \<and> ((''prev-month'' \<notin> elements p \<and> ''next-month'' \<notin> elements p) \<longrightarrow>
          initCalendarNavigationListeners p = p)
   \<and> ((''accentColorPicker'' \<notin> elements p \<and> ''hexDisplay'' \<notin> elements p) \<longrightarrow>
          initThemeSelector p
            = p\<lparr>storage := (storage p)(COLOR_STORAGE_KEY \<mapsto> item_or p COLOR_STORAGE_KEY DEFAULT_HEX),
                 root_style := (root_style p)
                   (ROOT_COLOR_VAR \<mapsto> item_or p COLOR_STORAGE_KEY DEFAULT_HEX,
                    ROOT_RGB_COLOR_VAR \<mapsto> hexToRgb (item_or p COLOR_STORAGE_KEY DEFAULT_HEX))\<rparr>)
   \<and> (''accentColorPicker'' \<notin> elements p \<longrightarrow>
          listeners (initThemeSelector p) = listeners p
          \<and> intervals (initThemeSelector p) = intervals p
          \<and> storage (initThemeSelector p) COLOR_STORAGE_KEY
               = Some (item_or p COLOR_STORAGE_KEY DEFAULT_HEX)
          \<and> root_style (initThemeSelector p) ROOT_COLOR_VAR
               = Some (item_or p COLOR_STORAGE_KEY DEFAULT_HEX))
   \<and> ((''clock'' \<notin> elements p \<and> ''date'' \<notin> elements p) \<longrightarrow>
          initClock p = p\<lparr>intervals := intervals p @ [1000]\<rparr>)"
proof (intro conjI impI)
  assume "''hamburger-menu'' \<notin> elements p \<or> ''sidebar'' \<notin> elements p"
  then show "initSidebarToggle p = p"
    by (auto simp: initSidebarToggle_def getElement_def)
next
  assume "''toggle-wallpaper-btn'' \<notin> elements p \<or> \<not> video_container p"
  then show "initWallpaperToggle p = p"
    by (auto simp: initWallpaperToggle_def getElement_def)
next
  assume "''notepad'' \<notin> elements p"
  then show "initTextBoxStorage p = p"
    by (simp add: initTextBoxStorage_def getElement_def)
next
  assume "''passwordInput'' \<notin> elements p"
  then show "initPasswordProtection p = p"
    by (simp add: initPasswordProtection_def getElement_def)
next
  assume "''keyboard'' \<notin> elements p \<or> ''passwordInput'' \<notin> elements p"
  then show "initKeyboardInput p = p"
    by (auto simp: initKeyboardInput_def getElement_def)
next
  assume "''inputBox'' \<notin> elements p \<or> ''checklist'' \<notin> elements p"
  then show "initChecklist p = (Done, p)"
    by (auto simp: initChecklist_def getElement_def)
next
  assume "''month-year'' \<notin> elements p \<or> ''calendar-body'' \<notin> elements p"
  then show "generateCalendar p = (Done, p)"
    by (auto simp: generateCalendar_def getElement_def)
next
  assume "''prev-month'' \<notin> elements p \<and> ''next-month'' \<notin> elements p"
  then show "initCalendarNavigationListeners p = p"
    by (simp add: initCalendarNavigationListeners_def getElement_def)
next
  assume "''accentColorPicker'' \<notin> elements p \<and> ''hexDisplay'' \<notin> elements p"
  then show "initThemeSelector p
      = p\<lparr>storage := (storage p)(COLOR_STORAGE_KEY \<mapsto> item_or p COLOR_STORAGE_KEY DEFAULT_HEX),
           root_style := (root_style p)
             (ROOT_COLOR_VAR \<mapsto> item_or p COLOR_STORAGE_KEY DEFAULT_HEX,
              ROOT_RGB_COLOR_VAR \<mapsto> hexToRgb (item_or p COLOR_STORAGE_KEY DEFAULT_HEX))\<rparr>"
    by (simp add: initThemeSelector_def applyColor_def getElement_def Let_def)
next
  assume a: "''accentColorPicker'' \<notin> elements p"
  have e: "initThemeSelector p
      = applyColor (item_or p COLOR_STORAGE_KEY DEFAULT_HEX) None p"
    using a by (simp add: initThemeSelector_def getElement_def Let_def)
  have v: "ROOT_RGB_COLOR_VAR \<noteq> ROOT_COLOR_VAR"
    by (simp add: ROOT_RGB_COLOR_VAR_def ROOT_COLOR_VAR_def)
  show "listeners (initThemeSelector p) = listeners p"
    unfolding e by (simp add: applyColor_def getElement_def Let_def set_prop_def)
  show "intervals (initThemeSelector p) = intervals p"
    unfolding e by (simp add: applyColor_def getElement_def Let_def set_prop_def)
  show "storage (initThemeSelector p) COLOR_STORAGE_KEY
      = Some (item_or p COLOR_STORAGE_KEY DEFAULT_HEX)"
    unfolding e by (simp add: applyColor_def getElement_def Let_def set_prop_def)
  show "root_style (initThemeSelector p) ROOT_COLOR_VAR
      = Some (item_or p COLOR_STORAGE_KEY DEFAULT_HEX)"
    unfolding e using v by (simp add: applyColor_def getElement_def Let_def set_prop_def)
next
  assume "''clock'' \<notin> elements p \<and> ''date'' \<notin> elements p"
  then show "initClock p = p\<lparr>intervals := intervals p @ [1000]\<rparr>"
    by (simp add: initClock_def updateClock_def getElement_def Let_def)
qed

theorem init_without_anchors_witness:
  "''hamburger-menu'' \<notin> elements empty_page \<and> initSidebarToggle empty_page = empty_page
   \<and> initWallpaperToggle empty_page = empty_page
   \<and> initTextBoxStorage empty_page = empty_page
   \<and> initPasswordProtection empty_page = empty_page
   \<and> initKeyboardInput empty_page = empty_page
   \<and> initChecklist empty_page = (Done, empty_page)
   \<and> generateCalendar empty_page = (Done, empty_page)
   \<and> initCalendarNavigationListeners empty_page = empty_page
   \<and> listeners (initThemeSelector empty_page) = []
   \<and> storage (initThemeSelector empty_page) ''accentColor'' = Some ''#ffffff''
   \<and> root_style (initThemeSelector empty_page) ''--accent-color'' = Some ''#ffffff''
   \<and> intervals (initClock empty_page) = [1000]"
proof -
  have na: "x \<notin> elements empty_page" for x
    by (simp add: empty_page_def)
  have l: "listeners empty_page = []" "intervals empty_page = []"
    by (simp_all add: empty_page_def)
  have i: "item_or empty_page COLOR_STORAGE_KEY DEFAULT_HEX = ''#ffffff''"
    by (simp add: item_or_def empty_page_def DEFAULT_HEX_def)
  note t = init_without_anchors [of empty_page]
  from t na have g: "initSidebarToggle empty_page = empty_page"
    "initWallpaperToggle empty_page = empty_page"
    "initTextBoxStorage empty_page = empty_page"
    "initPasswordProtection empty_page = empty_page"
    "initKeyboardInput empty_page = empty_page"
    "initChecklist empty_page = (Done, empty_page)"
    "generateCalendar empty_page = (Done, empty_page)"
    "initCalendarNavigationListeners empty_page = empty_page"
    by blast+
  from t na have th: "listeners (initThemeSelector empty_page) = listeners empty_page"
    "storage (initThemeSelector empty_page) COLOR_STORAGE_KEY
       = Some (item_or empty_page COLOR_STORAGE_KEY DEFAULT_HEX)"
    "root_style (initThemeSelector empty_page) ROOT_COLOR_VAR
       = Some (item_or empty_page COLOR_STORAGE_KEY DEFAULT_HEX)"
    by blast+
  from t na have "initClock empty_page = empty_page\<lparr>intervals := intervals empty_page @ [1000]\<rparr>"
    by blast
  then have c: "intervals (initClock empty_page) = [1000]"
    by (simp add: l)
  show ?thesis
    using na g th [unfolded i l, unfolded COLOR_STORAGE_KEY_def ROOT_COLOR_VAR_def] c
    by (simp only: simp_thms)
qed

text \<open>
  C2 as stated fails for the theme selector: on a document with no element at all and
  nothing stored, its initialisation writes the default colour to storage and to the
  document root.
\<close>

theorem initThemeSelector_counterexample:
  "''accentColorPicker'' \<notin> elements empty_page
   \<and> storage empty_page ''accentColor'' = None
   \<and> storage (initThemeSelector empty_page) ''accentColor'' = Some ''#ffffff''
   \<and> root_style empty_page ''--accent-color'' = None
   \<and> root_style (initThemeSelector empty_page) ''--accent-color'' = Some ''#ffffff''
   \<and> root_style (initThemeSelector empty_page) ''--accent-color-rgb'' = Some ''255, 255, 255''"
  by code_simp

end
